theory Spec2Isabelle
  imports Complex_Main
begin

section \<open>Python values and the builtins the extractor relies on\<close>

text \<open>
  The extractor returns plain Python dictionaries and lists. A dictionary is an
  association list in insertion order (every dictionary the code builds has distinct keys);
  strings are byte strings, non-ASCII letters of the source's literals being written as
  their UTF-8 bytes.
\<close>

datatype pyfloat = Finite bool rat | Infinite bool | NaN

datatype pyval =
    PNone
  | PStr string
  | PInt int
  | PFloat pyfloat
  | PList "pyval list"
  | PDict "(string \<times> pyval) list"

datatype error =
    ValueError string
  | TypeError
  | OverflowError
  | KeyError string
  | AttributeError

text \<open>Sequencing of computations that may raise: the first exception wins.\<close>

definition bind_err :: "error + 'a \<Rightarrow> ('a \<Rightarrow> error + 'b) \<Rightarrow> error + 'b" where
  "bind_err m f = (case m of Inl e \<Rightarrow> Inl e | Inr v \<Rightarrow> f v)"

text \<open>A \<^verbatim>\<open>for\<close> loop that appends one computed entry per element.\<close>

fun for_each :: "('a \<Rightarrow> error + 'b) \<Rightarrow> 'a list \<Rightarrow> error + 'b list" where
  "for_each f [] = Inr []"
| "for_each f (x # xs) =
     bind_err (f x) (\<lambda>y. bind_err (for_each f xs) (\<lambda>ys. Inr (y # ys)))"

subsection \<open>\<^verbatim>\<open>float\<close>\<close>

text \<open>
  \<^verbatim>\<open>float(s)\<close> on a string strips white space and accepts
  \<^verbatim>\<open>[sign] (number [exponent] | inf | infinity | nan)\<close>, where a digit part is
  \<^verbatim>\<open>digit (["_"] digit)*\<close>; anything else raises ValueError. The grammar below is the
  ASCII one (Unicode digits and Unicode white space are not accepted by the model).
  \<open>Finite neg q\<close> stands for the double nearest to the decimal \<open>q\<close> with sign \<open>neg\<close>:
  rounding and overflow to infinity are not computed.
\<close>

definition py_isspace :: "char \<Rightarrow> bool" where
  "py_isspace c = (of_char c \<in> set [9, 10, 11, 12, 13, 28, 29, 30, 31, 32 :: nat])"

definition strip :: "string \<Rightarrow> string" where
  "strip s = rev (dropWhile py_isspace (rev (dropWhile py_isspace s)))"

definition is_digit :: "char \<Rightarrow> bool" where
  "is_digit c = (48 \<le> (of_char c :: nat) \<and> (of_char c :: nat) \<le> 57)"

definition digit_val :: "char \<Rightarrow> nat" where
  "digit_val c = of_char c - 48"

definition lower_char :: "char \<Rightarrow> char" where
  "lower_char c = (if 65 \<le> (of_char c :: nat) \<and> (of_char c :: nat) \<le> 90
                   then char_of (of_char c + 32 :: nat) else c)"

definition lower :: "string \<Rightarrow> string" where
  "lower s = map lower_char s"

fun digits_tail :: "string \<Rightarrow> nat list \<times> string" where
  "digits_tail [] = ([], [])"
| "digits_tail [c] = (if is_digit c then ([digit_val c], []) else ([], [c]))"
| "digits_tail (c # d # cs) =
     (if is_digit c then (case digits_tail (d # cs) of (ds, r) \<Rightarrow> (digit_val c # ds, r))
      else if c = CHR ''_'' \<and> is_digit d
           then (case digits_tail cs of (ds, r) \<Rightarrow> (digit_val d # ds, r))
      else ([], c # d # cs))"

definition digitpart :: "string \<Rightarrow> (nat list \<times> string) option" where
  "digitpart s = (case s of [] \<Rightarrow> None
                  | c # cs \<Rightarrow> if is_digit c then Some (digits_tail s) else None)"

definition after_point :: "string \<Rightarrow> string option" where
  "after_point s = (case s of [] \<Rightarrow> None | c # cs \<Rightarrow> if c = CHR ''.'' then Some cs else None)"

text \<open>\<^verbatim>\<open>number ::= [digitpart] "." digitpart | digitpart ["."]\<close>: integer digits, fraction
  digits and the rest of the input.\<close>

definition number :: "string \<Rightarrow> (nat list \<times> nat list \<times> string) option" where
  "number s =
     (case digitpart s of
        Some (ip, r) \<Rightarrow>
          (case after_point r of
             None \<Rightarrow> Some (ip, [], r)
           | Some r' \<Rightarrow> (case digitpart r' of
                          None \<Rightarrow> Some (ip, [], r')
                        | Some (fp, r'') \<Rightarrow> Some (ip, fp, r'')))
      | None \<Rightarrow>
          (case after_point s of
             None \<Rightarrow> None
           | Some r' \<Rightarrow> (case digitpart r' of
                          None \<Rightarrow> None
                        | Some (fp, r'') \<Rightarrow> Some ([], fp, r''))))"

definition sign_of :: "string \<Rightarrow> bool \<times> string" where
  "sign_of s = (case s of [] \<Rightarrow> (False, [])
                | c # cs \<Rightarrow> if c = CHR ''-'' then (True, cs)
                            else if c = CHR ''+'' then (False, cs) else (False, s))"

definition digits_value :: "nat list \<Rightarrow> nat" where
  "digits_value ds = foldl (\<lambda>acc d. 10 * acc + d) 0 ds"

text \<open>\<^verbatim>\<open>exponent ::= ("e" | "E") [sign] digitpart\<close>, which must end the input; no exponent
  at the end of the input is the exponent 0.\<close>

definition exponent :: "string \<Rightarrow> int option" where
  "exponent s =
     (case s of [] \<Rightarrow> Some 0
      | c # cs \<Rightarrow>
          if c = CHR ''e'' \<or> c = CHR ''E''
          then (case sign_of cs of (neg, r) \<Rightarrow>
                  (case digitpart r of
                     Some (ds, []) \<Rightarrow> Some (if neg then - int (digits_value ds)
                                           else int (digits_value ds))
                   | _ \<Rightarrow> None))
          else None)"

definition scale10 :: "nat \<Rightarrow> int \<Rightarrow> rat" where
  "scale10 m e = (if 0 \<le> e then of_nat m * 10 ^ nat e else of_nat m / 10 ^ nat (- e))"

definition float_of_string :: "string \<Rightarrow> pyfloat option" where
  "float_of_string s =
     (case sign_of (strip s) of (neg, r) \<Rightarrow>
        if lower r = ''inf'' \<or> lower r = ''infinity'' then Some (Infinite neg)
        else if lower r = ''nan'' then Some NaN
        else (case number r of
                None \<Rightarrow> None
              | Some (ip, fp, r') \<Rightarrow>
                  (case exponent r' of
                     None \<Rightarrow> None
                   | Some e \<Rightarrow>
                       Some (Finite neg (scale10 (digits_value (ip @ fp)) (e - int (length fp)))))))"

text \<open>
  \<^verbatim>\<open>float(x)\<close>: a string is parsed, an integer is converted (OverflowError beyond the
  range of a double), a float is returned, and \<^verbatim>\<open>None\<close>, lists and dictionaries raise
  TypeError.
\<close>

fun py_float :: "pyval \<Rightarrow> error + pyfloat" where
  "py_float (PStr s) = (case float_of_string s of None \<Rightarrow> Inl (ValueError s) | Some f \<Rightarrow> Inr f)"
| "py_float (PInt i) = (if \<bar>i\<bar> \<ge> 2 ^ 1024 - 2 ^ 970 then Inl OverflowError
                        else Inr (Finite (i < 0) (of_int \<bar>i\<bar>)))"
| "py_float (PFloat f) = Inr f"
| "py_float PNone = Inl TypeError"
| "py_float (PList xs) = Inl TypeError"
| "py_float (PDict kvs) = Inl TypeError"


subsection \<open>Dictionaries and strings\<close>

text \<open>\<^verbatim>\<open>d[k]\<close>, \<^verbatim>\<open>d.get(k, default)\<close>, \<^verbatim>\<open>d.keys()\<close>, \<^verbatim>\<open>len(x)\<close> and truth values.\<close>

fun subscript :: "pyval \<Rightarrow> string \<Rightarrow> error + pyval" where
  "subscript (PDict kvs) k = (case map_of kvs k of None \<Rightarrow> Inl (KeyError k) | Some v \<Rightarrow> Inr v)"
| "subscript v k = Inl TypeError"

fun dict_get :: "pyval \<Rightarrow> string \<Rightarrow> pyval \<Rightarrow> error + pyval" where
  "dict_get (PDict kvs) k d = (case map_of kvs k of None \<Rightarrow> Inr d | Some v \<Rightarrow> Inr v)"
| "dict_get v k d = Inl AttributeError"

fun keys :: "pyval \<Rightarrow> error + string list" where
  "keys (PDict kvs) = Inr (map fst kvs)"
| "keys v = Inl AttributeError"

text \<open>The format specification \<^verbatim>\<open>:,.2f\<close> accepts numbers only.\<close>

fun format_2f :: "pyval \<Rightarrow> error + pyval" where
  "format_2f (PFloat f) = Inr (PFloat f)"
| "format_2f (PInt i) = Inr (PInt i)"
| "format_2f (PStr s) = Inl (ValueError s)"
| "format_2f v = Inl TypeError"

fun py_len :: "pyval \<Rightarrow> error + nat" where
  "py_len (PList xs) = Inr (length xs)"
| "py_len (PDict kvs) = Inr (length kvs)"
| "py_len (PStr s) = Inr (length s)"
| "py_len v = Inl TypeError"

fun truthy :: "pyval \<Rightarrow> bool" where
  "truthy PNone = False"
| "truthy (PStr s) = (s \<noteq> [])"
| "truthy (PInt i) = (i \<noteq> 0)"
| "truthy (PFloat f) = (case f of Finite neg q \<Rightarrow> q \<noteq> 0 | _ \<Rightarrow> True)"
| "truthy (PList xs) = (xs \<noteq> [])"
| "truthy (PDict kvs) = (kvs \<noteq> [])"

text \<open>\<^verbatim>\<open>sub in s\<close> on strings.\<close>

fun str_contains :: "string \<Rightarrow> string \<Rightarrow> bool" where
  "str_contains sub [] = (sub = [])"
| "str_contains sub (c # cs) = (take (length sub) (c # cs) = sub \<or> str_contains sub cs)"

section \<open>The parsed document tree (xml.etree.ElementTree)\<close>

text \<open>
  An element has a tag in Clark notation (\<^verbatim>\<open>{uri}local\<close>), an attribute dictionary and
  its child elements in document order. Text and tail are never read by the extractor.
\<close>

datatype element = Element (tag: string) (attrib: "(string \<times> string) list") (children: "element list")

text \<open>\<^verbatim>\<open>elem.get(key)\<close> and \<^verbatim>\<open>elem.get(key, default)\<close>.\<close>

definition get :: "element \<Rightarrow> string \<Rightarrow> string option" where
  "get e k = map_of (attrib e) k"

definition val :: "string option \<Rightarrow> pyval" where
  "val x = (case x of None \<Rightarrow> PNone | Some s \<Rightarrow> PStr s)"

definition get_default :: "element \<Rightarrow> string \<Rightarrow> pyval \<Rightarrow> pyval" where
  "get_default e k d = (case get e k of None \<Rightarrow> d | Some s \<Rightarrow> PStr s)"

text \<open>The truth value of an element is that of its length: an element without children
  is false.\<close>

definition elem_truthy :: "element option \<Rightarrow> bool" where
  "elem_truthy x = (case x of None \<Rightarrow> False | Some e \<Rightarrow> children e \<noteq> [])"

text \<open>The prefixes of \<^verbatim>\<open>self.namespaces\<close> (the same table in both extractor variants).\<close>

datatype prefix = cfdi | cfdi33 | tfd | pago20 | pago10 | nomina12 | cartaporte31

fun namespaces :: "prefix \<Rightarrow> string" where
  "namespaces cfdi = ''http://www.sat.gob.mx/cfd/4''"
| "namespaces cfdi33 = ''http://www.sat.gob.mx/cfd/3''"
| "namespaces tfd = ''http://www.sat.gob.mx/TimbreFiscalDigital''"
| "namespaces pago20 = ''http://www.sat.gob.mx/Pagos20''"
| "namespaces pago10 = ''http://www.sat.gob.mx/Pagos''"
| "namespaces nomina12 = ''http://www.sat.gob.mx/nomina12''"
| "namespaces cartaporte31 = ''http://www.sat.gob.mx/CartaPorte31''"

text \<open>The path step \<^verbatim>\<open>prefix:local\<close> resolved against the table.\<close>

definition qname :: "prefix \<Rightarrow> string \<Rightarrow> string" where
  "qname p l = ''{'' @ namespaces p @ ''}'' @ l"

text \<open>
  The three path shapes the extractor uses:
  \<^verbatim>\<open>e.find('p:l')\<close> (first child with the tag),
  \<^verbatim>\<open>e.findall('p:a/p:b')\<close> (the \<open>b\<close> children of the \<open>a\<close> children) and
  \<^verbatim>\<open>e.findall('.//p:l')\<close>, \<^verbatim>\<open>e.find('.//p:l')\<close> (the elements that \<^verbatim>\<open>iter(tag)\<close> yields
  below \<open>e\<close>, the element itself left out; \<^verbatim>\<open>find\<close> takes the first).
\<close>

definition find_child :: "element \<Rightarrow> string \<Rightarrow> element option" where
  "find_child e t = List.find (\<lambda>c. tag c = t) (children e)"

definition findall_path :: "element \<Rightarrow> string \<Rightarrow> string \<Rightarrow> element list" where
  "findall_path e a b =
     concat (map (\<lambda>c. filter (\<lambda>d. tag d = b) (children c)) (filter (\<lambda>c. tag c = a) (children e)))"

fun iter :: "string \<Rightarrow> element \<Rightarrow> element list" where
  "iter t (Element tg ats cs) =
     (if tg = t then [Element tg ats cs] else []) @ concat (map (iter t) cs)"

definition findall_desc :: "element \<Rightarrow> string \<Rightarrow> element list" where
  "findall_desc e t = concat (map (iter t) (children e))"

definition find_desc :: "element \<Rightarrow> string \<Rightarrow> element option" where
  "find_desc e t = (case findall_desc e t of [] \<Rightarrow> None | x # xs \<Rightarrow> Some x)"


section \<open>cfdi\_tool/extractor.py\<close>

subsection \<open>Loader\<close>

text \<open>
  What the loader sees of the outside world: whether the path exists
  (\<^verbatim>\<open>os.path.exists\<close>), what \<^verbatim>\<open>ET.parse\<close> does with it (a tree, a ParseError with its
  message, or any other exception with its message), and the clock.
\<close>

datatype parse_result = Tree element | ParseError string | OtherError string

record world =
  path_exists :: "string \<Rightarrow> bool"
  et_parse :: "string \<Rightarrow> parse_result"
  now_isoformat :: string

text \<open>The lines the extractor prints, one constructor per \<^verbatim>\<open>print\<close> statement.\<close>

datatype line =
    Procesando string
  | Separador
  | Cargado string
  | ErrorParsear string
  | ErrorInesperado string
  | ResumenTitulo
  | ResumenUUID pyval
  | ResumenTipo pyval
  | ResumenSerieFolio pyval pyval
  | ResumenTotal pyval pyval
  | ResumenEmisor pyval pyval
  | ResumenReceptor pyval pyval
  | ResumenConceptos nat
  | ResumenComplementos "string list"
  | Completado

text \<open>\<^verbatim>\<open>a or b\<close> on optional strings: \<open>a\<close> when it is a non-empty string, else \<open>b\<close>.\<close>

definition py_or :: "string option \<Rightarrow> string option \<Rightarrow> string option" where
  "py_or a b = (if truthy (val a) then a else b)"

definition detectar_version :: "element \<Rightarrow> string" where
  "detectar_version root' =
     (let version = py_or (get root' ''Version'') (get root' ''version'') in
      case version of
        Some (c # cs) \<Rightarrow> c # cs
      | _ \<Rightarrow>
        (let tag_lower = lower (tag root') in
         if str_contains ''cfd/4'' tag_lower
            \<or> (str_contains ''cfdi'' tag_lower \<and> str_contains ''4'' tag_lower) then ''4.0''
         else if str_contains ''cfd/3'' tag_lower
            \<or> (str_contains ''cfdi'' tag_lower \<and> str_contains ''3'' tag_lower) then ''3.3''
         else ''Desconocida''))"

text \<open>
  \<^verbatim>\<open>cargar_cfdi\<close> returns the root element or \<^verbatim>\<open>None\<close>, and prints. A missing file raises
  FileNotFoundError inside the \<^verbatim>\<open>try\<close>, which the \<^verbatim>\<open>except Exception\<close> branch catches.
\<close>

definition cargar_cfdi :: "world \<Rightarrow> string \<Rightarrow> line list \<times> element option" where
  "cargar_cfdi w archivo_path =
     (if \<not> path_exists w archivo_path
      then ([ErrorInesperado (''No se encontr'' @ [CHR 0xC3, CHR 0xB3] @ '' el archivo: '' @ archivo_path)], None)
      else (case et_parse w archivo_path of
              Tree rt \<Rightarrow> ([Cargado (detectar_version rt)], Some rt)
            | ParseError e \<Rightarrow> ([ErrorParsear e], None)
            | OtherError e \<Rightarrow> ([ErrorInesperado e], None)))"

subsection \<open>Section extractors\<close>

definition tipos :: "(string \<times> string) list" where
  "tipos = [(''I'', ''Ingreso (Factura)''),
            (''E'', ''Egreso (Nota de Cr'' @ [CHR 0xC3, CHR 0xA9] @ ''dito)''),
            (''P'', ''Pago''),
            (''N'', ''N'' @ [CHR 0xC3, CHR 0xB3] @ ''mina''),
            (''T'', ''Traslado'')]"

definition traducir_tipo_comprobante :: "string option \<Rightarrow> string" where
  "traducir_tipo_comprobante tipo =
     (case tipo of
        None \<Rightarrow> ''Desconocido (None)''
      | Some t \<Rightarrow> (case map_of tipos t of
                     Some d \<Rightarrow> d
                   | None \<Rightarrow> ''Desconocido ('' @ t @ '')''))"

definition extraer_datos_generales :: "element \<Rightarrow> error + pyval" where
  "extraer_datos_generales root' =
     bind_err (py_float (get_default root' ''SubTotal'' (PInt 0))) (\<lambda>subtotal.
     bind_err (py_float (get_default root' ''Total'' (PInt 0))) (\<lambda>total.
     Inr (PDict [
       (''version'', val (get root' ''Version'')),
       (''serie'', get_default root' ''Serie'' (PStr ''Sin Serie'')),
       (''folio'', get_default root' ''Folio'' (PStr ''Sin Folio'')),
       (''fecha'', val (get root' ''Fecha'')),
       (''subtotal'', PFloat subtotal),
       (''total'', PFloat total),
       (''moneda'', get_default root' ''Moneda'' (PStr ''MXN'')),
       (''tipo_comprobante'', PStr (traducir_tipo_comprobante (get root' ''TipoDeComprobante''))),
       (''metodo_pago'', get_default root' ''MetodoPago'' (PStr ''Pago parcial'')),
       (''lugar_expedicion'', get_default root' ''LugarExpedicion'' (PStr ''SIN_LUGAR''))])))"

definition extraer_emisor :: "element \<Rightarrow> pyval" where
  "extraer_emisor root' =
     (let emisor = find_child root' (qname cfdi ''Emisor'');
          emisor = (if emisor = None then find_child root' (qname cfdi33 ''Emisor'') else emisor)
      in case emisor of
           Some e \<Rightarrow> PDict [
             (''rfc'', val (get e ''Rfc'')),
             (''nombre'', get_default e ''Nombre'' (PStr ''Sin Nombre'')),
             (''regimen_fiscal'', val (get e ''RegimenFiscal''))]
         | None \<Rightarrow> PDict [(''rfc'', PNone), (''nombre'', PNone), (''regimen_fiscal'', PNone)])"

definition extraer_receptor :: "element \<Rightarrow> pyval" where
  "extraer_receptor root' =
     (let receptor = find_child root' (qname cfdi ''Receptor'');
          receptor = (if receptor = None then find_child root' (qname cfdi33 ''Receptor'') else receptor)
      in case receptor of
           Some r \<Rightarrow> PDict [
             (''rfc'', val (get r ''Rfc'')),
             (''nombre'', get_default r ''Nombre'' (PStr ''Sin Nombre'')),
             (''uso_cfdi'', val (get r ''UsoCFDI'')),
             (''regimen_fiscal'', val (get r ''RegimenFiscalReceptor'')),
             (''domicilio_fiscal'', val (get r ''DomicilioFiscalReceptor'')),
             (''domicilio_fiscal_receptor'', val (get r ''DomicilioFiscalReceptor''))]
         | None \<Rightarrow> PDict [
             (''rfc'', PNone), (''nombre'', PNone), (''uso_cfdi'', PNone),
             (''regimen_fiscal'', PNone), (''domicilio_fiscal'', PNone),
             (''domicilio_fiscal_receptor'', PNone)])"

text \<open>The dictionary appended for one \<^verbatim>\<open>Traslado\<close> and for one \<^verbatim>\<open>Retencion\<close> element (the
  two loops of \<^verbatim>\<open>extraer_impuestos_concepto\<close> build the same shape).\<close>

definition impuesto_entry :: "element \<Rightarrow> error + pyval" where
  "impuesto_entry t =
     bind_err (py_float (get_default t ''Base'' (PInt 0))) (\<lambda>base.
     bind_err (py_float (get_default t ''TasaOCuota'' (PInt 0))) (\<lambda>tasa_cuota.
     bind_err (py_float (get_default t ''Importe'' (PInt 0))) (\<lambda>importe.
     Inr (PDict [
       (''base'', PFloat base),
       (''impuesto'', val (get t ''Impuesto'')),
       (''tipo_factor'', val (get t ''TipoFactor'')),
       (''tasa_cuota'', PFloat tasa_cuota),
       (''importe'', PFloat importe)]))))"

definition extraer_impuestos_concepto :: "element \<Rightarrow> error + pyval" where
  "extraer_impuestos_concepto concepto =
     bind_err (for_each impuesto_entry (findall_desc concepto (qname cfdi ''Traslado''))) (\<lambda>traslados.
     bind_err (for_each impuesto_entry (findall_desc concepto (qname cfdi ''Retencion''))) (\<lambda>retenciones.
     Inr (PDict [(''traslados'', PList traslados), (''retenciones'', PList retenciones)])))"

text \<open>The body of the loop of \<^verbatim>\<open>extraer_conceptos\<close>.\<close>

definition concepto_data :: "element \<Rightarrow> error + pyval" where
  "concepto_data concepto =
     bind_err (py_float (get_default concepto ''Cantidad'' (PInt 0))) (\<lambda>cantidad.
     bind_err (py_float (get_default concepto ''ValorUnitario'' (PInt 0))) (\<lambda>valor_unitario.
     bind_err (py_float (get_default concepto ''Importe'' (PInt 0))) (\<lambda>importe.
     bind_err (py_float (get_default concepto ''Descuento'' (PInt 0))) (\<lambda>descuento.
     bind_err (extraer_impuestos_concepto concepto) (\<lambda>impuestos.
     Inr (PDict [
       (''clave_prod_serv'', val (get concepto ''ClaveProdServ'')),
       (''cantidad'', PFloat cantidad),
       (''clave_unidad'', val (get concepto ''ClaveUnidad'')),
       (''descripcion'', val (get concepto ''Descripcion'')),
       (''valor_unitario'', PFloat valor_unitario),
       (''importe'', PFloat importe),
       (''descuento'', PFloat descuento),
       (''objeto_imp'', val (get concepto ''ObjetoImp'')),
       (''impuestos'', impuestos)]))))))"

definition extraer_conceptos :: "element \<Rightarrow> error + pyval" where
  "extraer_conceptos root' =
     (let conceptos = findall_path root' (qname cfdi ''Conceptos'') (qname cfdi ''Concepto'');
          conceptos = (if conceptos = []
                       then findall_path root' (qname cfdi33 ''Conceptos'') (qname cfdi33 ''Concepto'')
                       else conceptos)
      in bind_err (for_each concepto_data conceptos) (\<lambda>lista_conceptos.
         Inr (PList lista_conceptos)))"

definition extraer_timbre :: "element \<Rightarrow> pyval" where
  "extraer_timbre root' =
     (case find_desc root' (qname tfd ''TimbreFiscalDigital'') of
        Some timbre \<Rightarrow> PDict [
          (''uuid'', val (get timbre ''UUID'')),
          (''fecha_timbrado'', val (get timbre ''FechaTimbrado'')),
          (''rfc_prov_certif'', val (get timbre ''RfcProvCertif'')),
          (''no_certificado_sat'', val (get timbre ''NoCertificadoSAT''))]
      | None \<Rightarrow> PDict [])"


subsection \<open>Payments complement\<close>

text \<open>The dictionary appended for one \<^verbatim>\<open>TrasladoDR\<close> element.\<close>

definition traslado_dr_entry :: "element \<Rightarrow> error + pyval" where
  "traslado_dr_entry traslado =
     bind_err (py_float (get_default traslado ''BaseDR'' (PInt 0))) (\<lambda>base.
     bind_err (py_float (get_default traslado ''TasaOCuotaDR'' (PInt 0))) (\<lambda>tasa_cuota.
     bind_err (py_float (get_default traslado ''ImporteDR'' (PInt 0))) (\<lambda>importe.
     Inr (PDict [
       (''base'', PFloat base),
       (''impuesto'', val (get traslado ''ImpuestoDR'')),
       (''tipo_factor'', val (get traslado ''TipoFactorDR'')),
       (''tasa_cuota'', PFloat tasa_cuota),
       (''importe'', PFloat importe)]))))"

text \<open>The body of the loop over \<^verbatim>\<open>docs\<close>: the transferred taxes first, then the
  dictionary of the related document.\<close>

definition doc_relacionado :: "element \<Rightarrow> error + pyval" where
  "doc_relacionado doc =
     (let impuestos_dr = find_desc doc (qname pago20 ''ImpuestosDR'');
          impuestos_dr = (if impuestos_dr = None then find_desc doc (qname pago10 ''ImpuestosDR'')
                          else impuestos_dr)
      in bind_err
           (case impuestos_dr of
              None \<Rightarrow> Inr []
            | Some imp \<Rightarrow>
                (let traslados = findall_desc imp (qname pago20 ''TrasladoDR'');
                     traslados = (if traslados = [] then findall_desc imp (qname pago10 ''TrasladoDR'')
                                  else traslados)
                 in for_each traslado_dr_entry traslados)) (\<lambda>traslados_dr.
         bind_err (py_float (get_default doc ''ImpSaldoAnt'' (PInt 0))) (\<lambda>imp_saldo_ant.
         bind_err (py_float (get_default doc ''ImpPagado'' (PInt 0))) (\<lambda>imp_pagado.
         bind_err (py_float (get_default doc ''ImpSaldoInsoluto'' (PInt 0))) (\<lambda>imp_saldo_insoluto.
         Inr (PDict [
           (''id_documento'', val (get doc ''IdDocumento'')),
           (''serie'', val (get doc ''Serie'')),
           (''folio'', val (get doc ''Folio'')),
           (''moneda'', val (get doc ''MonedaDR'')),
           (''imp_saldo_ant'', PFloat imp_saldo_ant),
           (''imp_pagado'', PFloat imp_pagado),
           (''imp_saldo_insoluto'', PFloat imp_saldo_insoluto),
           (''traslados_dr'', PList traslados_dr)]))))))"

text \<open>The body of the loop over \<^verbatim>\<open>lista_pagos\<close>.\<close>

definition pago_data :: "element \<Rightarrow> error + pyval" where
  "pago_data pago =
     bind_err (py_float (get_default pago ''Monto'' (PInt 0))) (\<lambda>monto.
     (let docs = findall_desc pago (qname pago20 ''DoctoRelacionado'');
          docs = (if docs = [] then findall_desc pago (qname pago10 ''DoctoRelacionado'') else docs)
      in bind_err (for_each doc_relacionado docs) (\<lambda>documentos_relacionados.
         Inr (PDict [
           (''fecha_pago'', val (get pago ''FechaPago'')),
           (''forma_pago'', val (get pago ''FormaDePagoP'')),
           (''moneda'', val (get pago ''MonedaP'')),
           (''monto'', PFloat monto),
           (''documentos_relacionados'', PList documentos_relacionados)]))))"

definition extraer_complemento_pagos :: "element \<Rightarrow> error + pyval" where
  "extraer_complemento_pagos pagos =
     (let lista_pagos = findall_desc pagos (qname pago20 ''Pago'');
          lista_pagos = (if lista_pagos = [] then findall_desc pagos (qname pago10 ''Pago'')
                         else lista_pagos)
      in bind_err (for_each pago_data lista_pagos) (\<lambda>datos_pagos. Inr (PList datos_pagos)))"

text \<open>\<^verbatim>\<open>if not pagos:\<close> tests the truth value of the element found, not whether one was
  found.\<close>

definition extraer_complementos :: "element \<Rightarrow> error + pyval" where
  "extraer_complementos root' =
     (let pagos = find_desc root' (qname pago20 ''Pagos'');
          pagos = (if \<not> elem_truthy pagos then find_desc root' (qname pago10 ''Pagos'') else pagos)
      in case pagos of
           Some p \<Rightarrow> bind_err (extraer_complemento_pagos p) (\<lambda>v. Inr (PDict [(''pagos'', v)]))
         | None \<Rightarrow> Inr (PDict []))"

subsection \<open>Record assembly\<close>

text \<open>Printing a sequence of lines, each of which is formatted (and may raise) before it
  is printed: the lines before the first exception are printed.\<close>

fun print_all :: "(error + line) list \<Rightarrow> line list \<times> (error + unit)" where
  "print_all [] = ([], Inr ())"
| "print_all (Inl e # rest) = ([], Inl e)"
| "print_all (Inr l # rest) = (case print_all rest of (ls, r) \<Rightarrow> (l # ls, r))"

definition mostrar_resumen :: "pyval \<Rightarrow> line list \<times> (error + unit)" where
  "mostrar_resumen datos =
     print_all ([
       Inr ResumenTitulo,
       bind_err (subscript datos ''timbre'') (\<lambda>t.
         bind_err (dict_get t ''uuid'' (PStr ''No disponible'')) (\<lambda>u. Inr (ResumenUUID u))),
       bind_err (subscript datos ''datos_generales'') (\<lambda>g.
         bind_err (subscript g ''tipo_comprobante'') (\<lambda>t. Inr (ResumenTipo t))),
       bind_err (subscript datos ''datos_generales'') (\<lambda>g.
         bind_err (subscript g ''serie'') (\<lambda>s.
         bind_err (subscript g ''folio'') (\<lambda>f. Inr (ResumenSerieFolio s f)))),
       bind_err (subscript datos ''datos_generales'') (\<lambda>g.
         bind_err (subscript g ''total'') (\<lambda>t.
         bind_err (format_2f t) (\<lambda>t'.
         bind_err (subscript g ''moneda'') (\<lambda>m. Inr (ResumenTotal t' m))))),
       bind_err (subscript datos ''emisor'') (\<lambda>e.
         bind_err (subscript e ''nombre'') (\<lambda>n.
         bind_err (subscript e ''rfc'') (\<lambda>r. Inr (ResumenEmisor n r)))),
       bind_err (subscript datos ''receptor'') (\<lambda>r.
         bind_err (dict_get r ''nombre'' (PStr ''Sin nombre'')) (\<lambda>n.
         bind_err (dict_get r ''rfc'' PNone) (\<lambda>f. Inr (ResumenReceptor n f)))),
       bind_err (subscript datos ''conceptos'') (\<lambda>c.
         bind_err (py_len c) (\<lambda>n. Inr (ResumenConceptos n)))]
       @ (case subscript datos ''complementos'' of
            Inl e \<Rightarrow> [Inl e]
          | Inr c \<Rightarrow> if truthy c
                     then [bind_err (keys c) (\<lambda>ks. Inr (ResumenComplementos ks))]
                     else [])
       @ [Inr Completado])"

text \<open>
  \<^verbatim>\<open>procesar_cfdi_completo\<close> returns \<^verbatim>\<open>None\<close> when the loader does, else the assembled
  dictionary; the entries are computed in the order of the dictionary display.
\<close>

definition procesar_cfdi_completo :: "world \<Rightarrow> string \<Rightarrow> line list \<times> (error + pyval)" where
  "procesar_cfdi_completo w archivo_path =
     (case cargar_cfdi w archivo_path of (loaded, r) \<Rightarrow>
        (let out = [Procesando archivo_path, Separador] @ loaded in
         case r of
           None \<Rightarrow> (out, Inr PNone)
         | Some rt \<Rightarrow>
             (case bind_err (extraer_datos_generales rt) (\<lambda>datos_generales.
                   bind_err (extraer_conceptos rt) (\<lambda>conceptos.
                   bind_err (extraer_complementos rt) (\<lambda>complementos.
                   bind_err (extraer_impuestos_concepto rt) (\<lambda>impuestos.
                   Inr (PDict [
                     (''archivo'', PStr archivo_path),
                     (''fecha_procesamiento'', PStr (now_isoformat w)),
                     (''datos_generales'', datos_generales),
                     (''emisor'', extraer_emisor rt),
                     (''receptor'', extraer_receptor rt),
                     (''conceptos'', conceptos),
                     (''timbre'', extraer_timbre rt),
                     (''complementos'', complementos),
                     (''impuestos'', impuestos)]))))) of
                Inl e \<Rightarrow> (out, Inl e)
              | Inr resultado \<Rightarrow>
                  (case mostrar_resumen resultado of
                     (summary, Inl e) \<Rightarrow> (out @ summary, Inl e)
                   | (summary, Inr u) \<Rightarrow> (out @ summary, Inr resultado)))))"

section \<open>scripts/cfdi\_extractor.py\<close>

text \<open>
  The second extractor variant. Its namespace table, \<^verbatim>\<open>extraer_conceptos\<close>,
  \<^verbatim>\<open>extraer_impuestos_concepto\<close> and \<^verbatim>\<open>extraer_timbre\<close> compute what the ones above do; the
  functions that differ are modelled here.
\<close>

definition scripts_extraer_datos_generales :: "element \<Rightarrow> error + pyval" where
  "scripts_extraer_datos_generales root' =
     bind_err (py_float (get_default root' ''SubTotal'' (PInt 0))) (\<lambda>subtotal.
     bind_err (py_float (get_default root' ''Total'' (PInt 0))) (\<lambda>total.
     Inr (PDict [
       (''version'', val (get root' ''Version'')),
       (''serie'', get_default root' ''Serie'' (PStr ''Sin Serie'')),
       (''folio'', get_default root' ''Folio'' (PStr ''Sin Folio'')),
       (''fecha'', val (get root' ''Fecha'')),
       (''subtotal'', PFloat subtotal),
       (''total'', PFloat total),
       (''moneda'', get_default root' ''Moneda'' (PStr ''MXN'')),
       (''tipo_comprobante'', PStr (traducir_tipo_comprobante (get root' ''TipoDeComprobante''))),
       (''metodo_pago'', get_default root' ''MetodoPago'' (PStr ''No especificado'')),
       (''lugar_expedicion'', val (get root' ''LugarExpedicion''))])))"

definition scripts_extraer_emisor :: "element \<Rightarrow> pyval" where
  "scripts_extraer_emisor root' =
     (let emisor = find_child root' (qname cfdi ''Emisor'');
          emisor = (if emisor = None then find_child root' (qname cfdi33 ''Emisor'') else emisor)
      in case emisor of
           None \<Rightarrow> PDict [(''rfc'', PNone), (''nombre'', PNone), (''regimen_fiscal'', PNone)]
         | Some e \<Rightarrow> PDict [
             (''rfc'', val (get e ''Rfc'')),
             (''nombre'', get_default e ''Nombre'' (PStr ''Sin Nombre'')),
             (''regimen_fiscal'', val (get e ''RegimenFiscal''))])"

definition scripts_extraer_receptor :: "element \<Rightarrow> pyval" where
  "scripts_extraer_receptor root' =
     (let receptor = find_child root' (qname cfdi ''Receptor'');
          receptor = (if receptor = None then find_child root' (qname cfdi33 ''Receptor'') else receptor)
      in case receptor of
           None \<Rightarrow> PDict []
         | Some r \<Rightarrow> PDict [
             (''rfc'', val (get r ''Rfc'')),
             (''nombre'', get_default r ''Nombre'' (PStr ''Sin Nombre'')),
             (''uso_cfdi'', val (get r ''UsoCFDI'')),
             (''regimen_fiscal'', val (get r ''RegimenFiscalReceptor'')),
             (''domicilio_fiscal'', val (get r ''DomicilioFiscalReceptor''))])"

definition scripts_doc_relacionado :: "element \<Rightarrow> error + pyval" where
  "scripts_doc_relacionado doc =
     bind_err (py_float (get_default doc ''ImpSaldoAnt'' (PInt 0))) (\<lambda>imp_saldo_ant.
     bind_err (py_float (get_default doc ''ImpPagado'' (PInt 0))) (\<lambda>imp_pagado.
     bind_err (py_float (get_default doc ''ImpSaldoInsoluto'' (PInt 0))) (\<lambda>imp_saldo_insoluto.
     Inr (PDict [
       (''id_documento'', val (get doc ''IdDocumento'')),
       (''serie'', val (get doc ''Serie'')),
       (''folio'', val (get doc ''Folio'')),
       (''moneda'', val (get doc ''MonedaDR'')),
       (''imp_saldo_ant'', PFloat imp_saldo_ant),
       (''imp_pagado'', PFloat imp_pagado),
       (''imp_saldo_insoluto'', PFloat imp_saldo_insoluto)]))))"

definition scripts_pago_data :: "element \<Rightarrow> error + pyval" where
  "scripts_pago_data pago =
     bind_err (py_float (get_default pago ''Monto'' (PInt 0))) (\<lambda>monto.
     (let docs = findall_desc pago (qname pago20 ''DoctoRelacionado'');
          docs = (if docs = [] then findall_desc pago (qname pago10 ''DoctoRelacionado'') else docs)
      in bind_err (for_each scripts_doc_relacionado docs) (\<lambda>documentos_relacionados.
         Inr (PDict [
           (''fecha_pago'', val (get pago ''FechaPago'')),
           (''forma_pago'', val (get pago ''FormaDePagoP'')),
           (''moneda'', val (get pago ''MonedaP'')),
           (''monto'', PFloat monto),
           (''documentos_relacionados'', PList documentos_relacionados)]))))"

definition scripts_extraer_complemento_pagos :: "element \<Rightarrow> error + pyval" where
  "scripts_extraer_complemento_pagos pagos =
     (let lista_pagos = findall_desc pagos (qname pago20 ''Pago'');
          lista_pagos = (if lista_pagos = [] then findall_desc pagos (qname pago10 ''Pago'')
                         else lista_pagos)
      in bind_err (for_each scripts_pago_data lista_pagos) (\<lambda>resultados. Inr (PList resultados)))"

definition scripts_extraer_complementos :: "element \<Rightarrow> error + pyval" where
  "scripts_extraer_complementos root' =
     (let pagos = find_desc root' (qname pago20 ''Pagos'');
          pagos = (if pagos = None then find_desc root' (qname pago10 ''Pagos'') else pagos)
      in case pagos of
           Some p \<Rightarrow> bind_err (scripts_extraer_complemento_pagos p) (\<lambda>v. Inr (PDict [(''pagos'', v)]))
         | None \<Rightarrow> Inr (PDict []))"


section \<open>Observations and example documents\<close>

text \<open>The field \<open>k\<close> of the dictionary a stage returns, when the stage returns one.\<close>

definition field :: "string \<Rightarrow> error + pyval \<Rightarrow> error + pyval" where
  "field k r = bind_err r (\<lambda>d. subscript d k)"

text \<open>\<^verbatim>\<open><cfdi:Comprobante xmlns:cfdi="http://www.sat.gob.mx/cfd/4"/>\<close>: a root with no
  attributes and no children.\<close>

definition doc_sin_atributos :: element where
  "doc_sin_atributos = Element ''{http://www.sat.gob.mx/cfd/4}Comprobante'' [] []"

text \<open>A payment document whose \<^verbatim>\<open>pago20:Pagos\<close> container is empty:
  \<^verbatim>\<open><cfdi:Comprobante TipoDeComprobante="P"><cfdi:Complemento><pago20:Pagos Version="2.0"/>
  </cfdi:Complemento></cfdi:Comprobante>\<close>.\<close>

definition doc_pagos_vacio :: element where
  "doc_pagos_vacio =
     Element ''{http://www.sat.gob.mx/cfd/4}Comprobante'' [(''TipoDeComprobante'', ''P'')]
       [Element ''{http://www.sat.gob.mx/cfd/4}Complemento'' []
          [Element ''{http://www.sat.gob.mx/Pagos20}Pagos'' [(''Version'', ''2.0'')] []]]"

text \<open>The minimal CFDI 4.0 document of \<^verbatim>\<open>tests/test_extractor.py\<close>.\<close>

definition doc_minimo :: element where
  "doc_minimo =
     Element ''{http://www.sat.gob.mx/cfd/4}Comprobante''
       [(''Version'', ''4.0''), (''Serie'', ''A''), (''Folio'', ''1''),
        (''Fecha'', ''2025-12-30T12:00:00''), (''SubTotal'', ''100''), (''Total'', ''1160''),
        (''Moneda'', ''MXN''), (''TipoDeComprobante'', ''I'')]
       [Element ''{http://www.sat.gob.mx/cfd/4}Emisor''
          [(''Rfc'', ''DEMO010101001''), (''Nombre'', ''Empresa Demostrativa SA de CV''),
           (''RegimenFiscal'', ''601'')] [],
        Element ''{http://www.sat.gob.mx/cfd/4}Receptor''
          [(''Rfc'', ''XAXX010101000''),
           (''Nombre'', ''Juan P'' @ [CHR 0xC3, CHR 0xA9] @ ''rez Gonz'' @ [CHR 0xC3, CHR 0xA1] @ ''lez''),
           (''UsoCFDI'', ''G03'')] [],
        Element ''{http://www.sat.gob.mx/cfd/4}Conceptos'' []
          [Element ''{http://www.sat.gob.mx/cfd/4}Concepto''
             [(''ClaveProdServ'', ''01010101''), (''Cantidad'', ''1''), (''ClaveUnidad'', ''H87''),
              (''Descripcion'', ''Servicio''), (''ValorUnitario'', ''100''), (''Importe'', ''100'')]
             []]]"

text \<open>A CFDI 3.3 document: root, \<^verbatim>\<open>Emisor\<close> and \<^verbatim>\<open>Receptor\<close> in the legacy namespace.\<close>

definition doc_legacy :: element where
  "doc_legacy =
     Element ''{http://www.sat.gob.mx/cfd/3}Comprobante'' [(''Version'', ''3.3'')]
       [Element ''{http://www.sat.gob.mx/cfd/3}Emisor''
          [(''Rfc'', ''AAA010101AAA''), (''RegimenFiscal'', ''601'')] [],
        Element ''{http://www.sat.gob.mx/cfd/3}Receptor''
          [(''Rfc'', ''XAXX010101000''), (''UsoCFDI'', ''G03'')] []]"



text \<open>
  Four worlds: the path does not exist; the file is not well-formed XML; the file cannot
  be read; and the file holds the test document, read at the clock time \<open>ahora\<close>. And a
  dictionary without one of its keys.
\<close>

definition mundo_inexistente :: world where
  "mundo_inexistente =
     \<lparr>path_exists = (\<lambda>p. False), et_parse = (\<lambda>p. OtherError ''''),
      now_isoformat = ''2026-01-01T00:00:00''\<rparr>"

definition mundo_mal_formado :: world where
  "mundo_mal_formado =
     \<lparr>path_exists = (\<lambda>p. True), et_parse = (\<lambda>p. ParseError ''no element found: line 1, column 0''),
      now_isoformat = ''2026-01-01T00:00:00''\<rparr>"

definition mundo_ilegible :: world where
  "mundo_ilegible =
     \<lparr>path_exists = (\<lambda>p. True), et_parse = (\<lambda>p. OtherError ''[Errno 13] Permission denied''),
      now_isoformat = ''2026-01-01T00:00:00''\<rparr>"

definition mundo_minimo :: "string \<Rightarrow> world" where
  "mundo_minimo ahora =
     \<lparr>path_exists = (\<lambda>p. True), et_parse = (\<lambda>p. Tree doc_minimo), now_isoformat = ahora\<rparr>"

fun without :: "string \<Rightarrow> pyval \<Rightarrow> pyval" where
  "without k (PDict kvs) = PDict (filter (\<lambda>kv. fst kv \<noteq> k) kvs)"
| "without k v = v"

text \<open>A root whose \<^verbatim>\<open>SubTotal\<close> is not a number, and the world in which it is the
  document read.\<close>

definition doc_subtotal_no_numerico :: element where
  "doc_subtotal_no_numerico =
     Element ''{http://www.sat.gob.mx/cfd/4}Comprobante'' [(''SubTotal'', ''abc'')] []"

definition mundo_no_numerico :: world where
  "mundo_no_numerico =
     \<lparr>path_exists = (\<lambda>p. True), et_parse = (\<lambda>p. Tree doc_subtotal_no_numerico),
      now_isoformat = ''2026-01-01T00:00:00''\<rparr>"

text \<open>
  A line item without \<^verbatim>\<open>Cantidad\<close> whose \<^verbatim>\<open>ValorUnitario\<close> is not a number, alone and
  inside a document; and elements that lack numeric attributes: the line item of the test
  document (no \<^verbatim>\<open>Descuento\<close>), a transferred tax, and a payment with one related document
  and its transferred tax, none of which carries an amount.
\<close>

definition concepto_valor_no_numerico :: element where
  "concepto_valor_no_numerico =
     Element ''{http://www.sat.gob.mx/cfd/4}Concepto'' [(''ValorUnitario'', ''abc'')] []"

definition doc_concepto_no_numerico :: element where
  "doc_concepto_no_numerico =
     Element ''{http://www.sat.gob.mx/cfd/4}Comprobante'' []
       [Element ''{http://www.sat.gob.mx/cfd/4}Conceptos'' []
          [Element ''{http://www.sat.gob.mx/cfd/4}Concepto'' [(''ValorUnitario'', ''abc'')] []]]"

definition concepto_minimo :: element where
  "concepto_minimo =
     Element ''{http://www.sat.gob.mx/cfd/4}Concepto''
       [(''ClaveProdServ'', ''01010101''), (''Cantidad'', ''1''), (''ClaveUnidad'', ''H87''),
        (''Descripcion'', ''Servicio''), (''ValorUnitario'', ''100''), (''Importe'', ''100'')] []"

definition traslado_sin_importes :: element where
  "traslado_sin_importes = Element ''{http://www.sat.gob.mx/cfd/4}Traslado'' [(''Impuesto'', ''002'')] []"

definition traslado_dr_sin_importes :: element where
  "traslado_dr_sin_importes =
     Element ''{http://www.sat.gob.mx/Pagos20}TrasladoDR'' [(''ImpuestoDR'', ''002'')] []"

definition docto_sin_importes :: element where
  "docto_sin_importes =
     Element ''{http://www.sat.gob.mx/Pagos20}DoctoRelacionado'' [(''IdDocumento'', ''A1'')]
       [Element ''{http://www.sat.gob.mx/Pagos20}ImpuestosDR'' []
          [Element ''{http://www.sat.gob.mx/Pagos20}TrasladosDR'' [] [traslado_dr_sin_importes]]]"

definition pago_sin_importes :: element where
  "pago_sin_importes =
     Element ''{http://www.sat.gob.mx/Pagos20}Pago'' [(''FechaPago'', ''2025-12-30T12:00:00'')]
       [docto_sin_importes]"

section \<open>Document order and descendants\<close>

text \<open>
  The elements below \<open>e\<close> in document order (each child followed by what is below it), and
  the relation "is below": a child, or below a child.
\<close>

fun descendants :: "element \<Rightarrow> element list" where
  "descendants (Element tg ats cs) = concat (map (\<lambda>c. c # descendants c) cs)"

inductive descendant_of :: "element \<Rightarrow> element \<Rightarrow> bool" where
  child: "c \<in> set (children p) \<Longrightarrow> descendant_of c p"
| below: "c \<in> set (children p) \<Longrightarrow> descendant_of d c \<Longrightarrow> descendant_of d p"

section \<open>Trees whose numeric attributes are numeric\<close>

text \<open>
  The attributes that the extractor passes to \<^verbatim>\<open>float\<close>; an element whose numeric
  attributes, where present, hold text that \<^verbatim>\<open>float\<close> accepts; and a tree all of whose
  elements are such.
\<close>

definition numeric_attributes :: "string list" where
  "numeric_attributes =
     [''SubTotal'', ''Total'', ''Cantidad'', ''ValorUnitario'', ''Importe'', ''Descuento'',
      ''Base'', ''TasaOCuota'', ''Monto'', ''ImpSaldoAnt'', ''ImpPagado'', ''ImpSaldoInsoluto'',
      ''BaseDR'', ''TasaOCuotaDR'', ''ImporteDR'']"

definition attrs_numeric :: "element \<Rightarrow> bool" where
  "attrs_numeric e =
     (\<forall>k \<in> set numeric_attributes.
        case get e k of None \<Rightarrow> True | Some s \<Rightarrow> float_of_string s \<noteq> None)"

definition numeric_ok :: "element \<Rightarrow> bool" where
  "numeric_ok r = (attrs_numeric r \<and> (\<forall>d \<in> set (descendants r). attrs_numeric d))"

text \<open>The exception that \<^verbatim>\<open>float\<close> raises on text that is not a number.\<close>

definition is_value_error :: "error \<Rightarrow> bool" where
  "is_value_error x = (case x of ValueError s \<Rightarrow> True | _ \<Rightarrow> False)"

section \<open>Properties\<close>

subsection \<open>Sequencing\<close>

lemma bind_err_simps [simp]:
  "bind_err (Inl e) f = Inl e"
  "bind_err (Inr v) f = f v"
  by (simp_all add: bind_err_def)

lemma bind_err_eq_Inr: "bind_err m f = Inr r \<longleftrightarrow> (\<exists>v. m = Inr v \<and> f v = Inr r)"
  by (cases m) simp_all

lemma bind_err_eq_Inl:
  "bind_err m f = Inl e \<longleftrightarrow> m = Inl e \<or> (\<exists>v. m = Inr v \<and> f v = Inl e)"
  by (cases m) simp_all

lemma float_default_zero:
  "get e k = None \<Longrightarrow> py_float (get_default e k (PInt 0)) = Inr (Finite False 0)"
  by (simp add: get_default_def)

subsection \<open>General data: the two variants\<close>

lemma datos_generales_same_outcome:
  "(\<exists>e. extraer_datos_generales r = Inl e \<and> scripts_extraer_datos_generales r = Inl e)
   \<or> (\<exists>a b. extraer_datos_generales r = Inr (PDict a)
            \<and> scripts_extraer_datos_generales r = Inr (PDict b))"
  unfolding extraer_datos_generales_def scripts_extraer_datos_generales_def
  by (cases "py_float (get_default r ''SubTotal'' (PInt 0))";
      cases "py_float (get_default r ''Total'' (PInt 0))"; simp)

lemma datos_generales_other_fields:
  "k \<noteq> ''metodo_pago'' \<Longrightarrow> k \<noteq> ''lugar_expedicion'' \<Longrightarrow>
   field k (extraer_datos_generales r) = field k (scripts_extraer_datos_generales r)"
  unfolding extraer_datos_generales_def scripts_extraer_datos_generales_def field_def
  by (cases "py_float (get_default r ''SubTotal'' (PInt 0))";
      cases "py_float (get_default r ''Total'' (PInt 0))"; simp)

lemma datos_generales_metodo_pago:
  "extraer_datos_generales r = Inr dt \<Longrightarrow>
   subscript dt ''metodo_pago'' = Inr (get_default r ''MetodoPago'' (PStr ''Pago parcial''))"
  unfolding extraer_datos_generales_def
  by (auto simp: bind_err_eq_Inr)

lemma scripts_datos_generales_metodo_pago:
  "scripts_extraer_datos_generales r = Inr ds \<Longrightarrow>
   subscript ds ''metodo_pago'' = Inr (get_default r ''MetodoPago'' (PStr ''No especificado''))"
  unfolding scripts_extraer_datos_generales_def
  by (auto simp: bind_err_eq_Inr)

lemma datos_generales_lugar_expedicion:
  "extraer_datos_generales r = Inr dt \<Longrightarrow>
   subscript dt ''lugar_expedicion'' = Inr (get_default r ''LugarExpedicion'' (PStr ''SIN_LUGAR''))"
  unfolding extraer_datos_generales_def
  by (auto simp: bind_err_eq_Inr)

lemma scripts_datos_generales_lugar_expedicion:
  "scripts_extraer_datos_generales r = Inr ds \<Longrightarrow>
   subscript ds ''lugar_expedicion'' = Inr (val (get r ''LugarExpedicion''))"
  unfolding scripts_extraer_datos_generales_def
  by (auto simp: bind_err_eq_Inr)

text \<open>
  C8, as stated, fails: besides \<^verbatim>\<open>metodo_pago\<close> the two variants disagree on the default
  of \<^verbatim>\<open>lugar_expedicion\<close>. On the root without attributes the cfdi\_tool extractor reports
  \<^verbatim>\<open>'SIN_LUGAR'\<close> and the scripts extractor reports \<^verbatim>\<open>None\<close>.
\<close>

theorem datos_generales_lugar_expedicion_differs:
  "get doc_sin_atributos ''MetodoPago'' = None
   \<and> field ''lugar_expedicion'' (extraer_datos_generales doc_sin_atributos) = Inr (PStr ''SIN_LUGAR'')
   \<and> field ''lugar_expedicion'' (scripts_extraer_datos_generales doc_sin_atributos) = Inr PNone"
  by (simp add: field_def extraer_datos_generales_def scripts_extraer_datos_generales_def
        doc_sin_atributos_def get_default_def get_def val_def)

text \<open>
  C8, amended: for every root without the \<^verbatim>\<open>MetodoPago\<close> attribute the cfdi\_tool extractor
  reports \<^verbatim>\<open>metodo_pago = 'Pago parcial'\<close> and the scripts extractor
  \<^verbatim>\<open>'No especificado'\<close>; for every root without \<^verbatim>\<open>LugarExpedicion\<close> they report
  \<^verbatim>\<open>'SIN_LUGAR'\<close> and \<^verbatim>\<open>None\<close>; every other field of general data is the same in the
  two variants, and one variant raises exactly when the other does, with the same exception.
\<close>

theorem datos_generales_variants:
  "(get r ''MetodoPago'' = None \<longrightarrow>
      (extraer_datos_generales r = Inr dt \<longrightarrow> subscript dt ''metodo_pago'' = Inr (PStr ''Pago parcial''))
    \<and> (scripts_extraer_datos_generales r = Inr ds \<longrightarrow>
         subscript ds ''metodo_pago'' = Inr (PStr ''No especificado'')))
   \<and> (get r ''LugarExpedicion'' = None \<longrightarrow>
      (extraer_datos_generales r = Inr dt \<longrightarrow> subscript dt ''lugar_expedicion'' = Inr (PStr ''SIN_LUGAR''))
    \<and> (scripts_extraer_datos_generales r = Inr ds \<longrightarrow> subscript ds ''lugar_expedicion'' = Inr PNone))
   \<and> (k \<noteq> ''metodo_pago'' \<and> k \<noteq> ''lugar_expedicion'' \<longrightarrow>
        field k (extraer_datos_generales r) = field k (scripts_extraer_datos_generales r))
   \<and> (extraer_datos_generales r = Inl e \<longleftrightarrow> scripts_extraer_datos_generales r = Inl e)"
proof (intro conjI impI)
  show "extraer_datos_generales r = Inl e \<longleftrightarrow> scripts_extraer_datos_generales r = Inl e"
    using datos_generales_same_outcome [of r] by auto
qed (simp_all add: datos_generales_metodo_pago scripts_datos_generales_metodo_pago
       datos_generales_lugar_expedicion scripts_datos_generales_lugar_expedicion
       datos_generales_other_fields get_default_def val_def)

theorem datos_generales_variants_witness:
  "get doc_sin_atributos ''MetodoPago'' = None
   \<and> field ''metodo_pago'' (extraer_datos_generales doc_sin_atributos) = Inr (PStr ''Pago parcial'')
   \<and> field ''metodo_pago'' (scripts_extraer_datos_generales doc_sin_atributos)
       = Inr (PStr ''No especificado'')
   \<and> field ''moneda'' (extraer_datos_generales doc_sin_atributos)
       = field ''moneda'' (scripts_extraer_datos_generales doc_sin_atributos)"
proof -
  have absent: "get doc_sin_atributos ''MetodoPago'' = None"
    by (simp add: doc_sin_atributos_def get_def)
  obtain a b where dt: "extraer_datos_generales doc_sin_atributos = Inr (PDict a)"
    and ds: "scripts_extraer_datos_generales doc_sin_atributos = Inr (PDict b)"
    using datos_generales_same_outcome [of doc_sin_atributos]
    by (auto simp: extraer_datos_generales_def doc_sin_atributos_def get_default_def get_def)
  note inst = datos_generales_variants [of doc_sin_atributos "PDict a" "PDict b" "''moneda''"]
  from inst absent dt have "subscript (PDict a) ''metodo_pago'' = Inr (PStr ''Pago parcial'')"
    by blast
  moreover from inst absent ds
  have "subscript (PDict b) ''metodo_pago'' = Inr (PStr ''No especificado'')"
    by blast
  moreover from inst
  have "field ''moneda'' (extraer_datos_generales doc_sin_atributos)
          = field ''moneda'' (scripts_extraer_datos_generales doc_sin_atributos)"
    by simp
  ultimately show ?thesis
    using absent dt ds by (simp add: field_def)
qed

subsection \<open>Descendant queries\<close>

lemma iter_descendants: "iter t e = filter (\<lambda>d. tag d = t) (e # descendants e)"
proof (induction e)
  case (Element tg ats cs)
  have "concat (map (iter t) cs) = concat (map (\<lambda>c. filter (\<lambda>d. tag d = t) (c # descendants c)) cs)"
    using Element.IH by (intro arg_cong [where f = concat] map_cong) auto
  also have "\<dots> = filter (\<lambda>d. tag d = t) (concat (map (\<lambda>c. c # descendants c) cs))"
    by (simp add: filter_concat comp_def)
  finally show ?case by simp
qed

lemma findall_desc_descendants: "findall_desc e t = filter (\<lambda>d. tag d = t) (descendants e)"
proof (cases e)
  case (Element tg ats cs)
  have "concat (map (iter t) cs) = concat (map (\<lambda>c. filter (\<lambda>d. tag d = t) (c # descendants c)) cs)"
    by (intro arg_cong [where f = concat] map_cong) (auto simp: iter_descendants)
  then show ?thesis
    using Element by (simp add: findall_desc_def filter_concat comp_def)
qed

lemma descendants_children: "descendants e = concat (map (\<lambda>c. c # descendants c) (children e))"
  by (cases e) simp

lemma descendants_sound: "d \<in> set (descendants e) \<Longrightarrow> descendant_of d e"
proof (induction e arbitrary: d)
  case (Element tg ats cs)
  then obtain c where c: "c \<in> set cs" and d: "d = c \<or> d \<in> set (descendants c)"
    by auto
  from d show ?case
  proof
    assume "d = c"
    with c show ?thesis by (simp add: descendant_of.child)
  next
    assume "d \<in> set (descendants c)"
    with Element.IH c have "descendant_of d c" by blast
    with c show ?thesis by (auto intro: descendant_of.below)
  qed
qed

lemma descendants_complete: "descendant_of d e \<Longrightarrow> d \<in> set (descendants e)"
proof (induction rule: descendant_of.induct)
  case (child c p)
  then show ?case by (subst descendants_children) auto
next
  case (below c p d)
  then show ?case by (subst descendants_children) auto
qed

lemma filter_Cons_D: "filter P xs = x # ys \<Longrightarrow> x \<in> set xs \<and> P x"
proof -
  assume eq: "filter P xs = x # ys"
  have "x \<in> set (filter P xs)" by (simp add: eq)
  then show ?thesis by simp
qed

lemma find_desc_None: "find_desc e t = None \<longleftrightarrow> (\<forall>d \<in> set (descendants e). tag d \<noteq> t)"
  unfolding find_desc_def findall_desc_descendants
  by (cases "filter (\<lambda>d. tag d = t) (descendants e)")
     (auto simp: filter_empty_conv dest: filter_Cons_D)

lemma find_desc_Some: "find_desc e t = Some x \<Longrightarrow> x \<in> set (descendants e) \<and> tag x = t"
  unfolding find_desc_def findall_desc_descendants
  by (auto split: list.splits dest: filter_Cons_D)

subsection \<open>Recipient: the two fiscal-domicile fields\<close>

text \<open>
  C10: for every tree the recipient dictionary of the cfdi\_tool extractor has the fields
  \<^verbatim>\<open>domicilio_fiscal\<close> and \<^verbatim>\<open>domicilio_fiscal_receptor\<close>, with the same value: the
  \<^verbatim>\<open>DomicilioFiscalReceptor\<close> attribute of the \<^verbatim>\<open>Receptor\<close> element found (current
  namespace first, then the legacy one), and \<^verbatim>\<open>None\<close> when there is no such element.
\<close>

theorem receptor_domicilio_fields_equal:
  "\<exists>v. subscript (extraer_receptor r) ''domicilio_fiscal'' = Inr v
     \<and> subscript (extraer_receptor r) ''domicilio_fiscal_receptor'' = Inr v
     \<and> v = (case find_child r ''{http://www.sat.gob.mx/cfd/4}Receptor'' of
              Some e \<Rightarrow> val (get e ''DomicilioFiscalReceptor'')
            | None \<Rightarrow> (case find_child r ''{http://www.sat.gob.mx/cfd/3}Receptor'' of
                         Some e \<Rightarrow> val (get e ''DomicilioFiscalReceptor'')
                       | None \<Rightarrow> PNone))"
  by (simp add: extraer_receptor_def qname_def Let_def split: option.splits)

theorem receptor_domicilio_fields_equal_witness:
  "subscript (extraer_receptor doc_minimo) ''domicilio_fiscal'' = Inr PNone
   \<and> subscript (extraer_receptor doc_minimo) ''domicilio_fiscal_receptor'' = Inr PNone"
  using receptor_domicilio_fields_equal [of doc_minimo]
  by (simp add: doc_minimo_def find_child_def get_def val_def)

subsection \<open>Absent issuer and recipient\<close>

lemma emisor_field_set: "keys (extraer_emisor r) = Inr [''rfc'', ''nombre'', ''regimen_fiscal'']"
  by (simp add: extraer_emisor_def Let_def split: option.splits)

lemma receptor_field_set:
  "keys (extraer_receptor r) = Inr [''rfc'', ''nombre'', ''uso_cfdi'', ''regimen_fiscal'',
                                    ''domicilio_fiscal'', ''domicilio_fiscal_receptor'']"
  by (simp add: extraer_receptor_def Let_def split: option.splits)

lemma scripts_emisor_field_set:
  "keys (scripts_extraer_emisor r) = Inr [''rfc'', ''nombre'', ''regimen_fiscal'']"
  by (simp add: scripts_extraer_emisor_def Let_def split: option.splits)

lemma emisor_absent_all_null:
  "find_child r (qname cfdi ''Emisor'') = None \<Longrightarrow> find_child r (qname cfdi33 ''Emisor'') = None \<Longrightarrow>
   extraer_emisor r = PDict [(''rfc'', PNone), (''nombre'', PNone), (''regimen_fiscal'', PNone)]"
  by (simp add: extraer_emisor_def)

lemma receptor_absent_all_null:
  "find_child r (qname cfdi ''Receptor'') = None \<Longrightarrow> find_child r (qname cfdi33 ''Receptor'') = None \<Longrightarrow>
   extraer_receptor r =
     PDict [(''rfc'', PNone), (''nombre'', PNone), (''uso_cfdi'', PNone), (''regimen_fiscal'', PNone),
            (''domicilio_fiscal'', PNone), (''domicilio_fiscal_receptor'', PNone)]"
  by (simp add: extraer_receptor_def)

text \<open>
  C3 at a root without a \<^verbatim>\<open>Receptor\<close> child: the scripts extractor returns the empty
  dictionary, while it returns five fields for the recipient of the test document; the
  cfdi\_tool extractor returns its six fields, all \<^verbatim>\<open>None\<close>.
\<close>

theorem scripts_receptor_absent_is_empty:
  "scripts_extraer_receptor doc_sin_atributos = PDict []
   \<and> keys (scripts_extraer_receptor doc_minimo)
       = Inr [''rfc'', ''nombre'', ''uso_cfdi'', ''regimen_fiscal'', ''domicilio_fiscal'']
   \<and> extraer_receptor doc_sin_atributos =
       PDict [(''rfc'', PNone), (''nombre'', PNone), (''uso_cfdi'', PNone), (''regimen_fiscal'', PNone),
              (''domicilio_fiscal'', PNone), (''domicilio_fiscal_receptor'', PNone)]"
  by (simp add: scripts_extraer_receptor_def extraer_receptor_def doc_sin_atributos_def
        doc_minimo_def find_child_def qname_def)

subsection \<open>The payments key of the complements\<close>

lemma scripts_complementos_pagos_key:
  assumes "scripts_extraer_complementos r = Inr d"
  shows "keys d = Inr (if \<exists>p \<in> set (descendants r).
                            tag p = ''{http://www.sat.gob.mx/Pagos20}Pagos''
                          \<or> tag p = ''{http://www.sat.gob.mx/Pagos}Pagos''
                       then [''pagos''] else [])"
proof (cases "find_desc r (qname pago20 ''Pagos'')")
  case None
  note n20 = this
  show ?thesis
  proof (cases "find_desc r (qname pago10 ''Pagos'')")
    case None
    with n20 have "\<forall>p \<in> set (descendants r). tag p \<noteq> qname pago20 ''Pagos'' \<and> tag p \<noteq> qname pago10 ''Pagos''"
      by (simp add: find_desc_None)
    moreover from n20 None assms have "d = PDict []"
      by (simp add: scripts_extraer_complementos_def)
    ultimately show ?thesis by (auto simp: qname_def)
  next
    case (Some p)
    then have "p \<in> set (descendants r) \<and> tag p = qname pago10 ''Pagos''"
      by (rule find_desc_Some)
    moreover from n20 Some assms have "\<exists>v. d = PDict [(''pagos'', v)]"
      by (auto simp: scripts_extraer_complementos_def bind_err_eq_Inr)
    ultimately show ?thesis by (auto simp: qname_def)
  qed
next
  case (Some p)
  then have "p \<in> set (descendants r) \<and> tag p = qname pago20 ''Pagos''"
    by (rule find_desc_Some)
  moreover from Some assms have "\<exists>v. d = PDict [(''pagos'', v)]"
    by (auto simp: scripts_extraer_complementos_def bind_err_eq_Inr)
  ultimately show ?thesis by (auto simp: qname_def)
qed

text \<open>
  C2 at a document whose \<^verbatim>\<open>pago20:Pagos\<close> container has no children: the container is
  found, the cfdi\_tool extractor returns complements without the key \<^verbatim>\<open>pagos\<close>, and the
  scripts extractor returns the key with the empty list.
\<close>

theorem complementos_empty_container:
  "find_desc doc_pagos_vacio ''{http://www.sat.gob.mx/Pagos20}Pagos''
     = Some (Element ''{http://www.sat.gob.mx/Pagos20}Pagos'' [(''Version'', ''2.0'')] [])
   \<and> extraer_complementos doc_pagos_vacio = Inr (PDict [])
   \<and> scripts_extraer_complementos doc_pagos_vacio = Inr (PDict [(''pagos'', PList [])])"
  by (simp add: doc_pagos_vacio_def extraer_complementos_def scripts_extraer_complementos_def
        scripts_extraer_complemento_pagos_def find_desc_def findall_desc_def elem_truthy_def
        qname_def)

subsection \<open>Namespace fallback for issuer and recipient\<close>

lemma find_first:
  "P e \<Longrightarrow> \<forall>c \<in> set pre. \<not> P c \<Longrightarrow> List.find P (pre @ e # post) = Some e"
  by (induction pre) simp_all

lemma find_child_first:
  "children r = pre @ e # post \<Longrightarrow> tag e = t \<Longrightarrow> \<forall>c \<in> set pre. tag c \<noteq> t \<Longrightarrow>
   find_child r t = Some e"
  unfolding find_child_def by (simp add: find_first)

lemma find_child_none: "\<forall>c \<in> set (children r). tag c \<noteq> t \<Longrightarrow> find_child r t = None"
  unfolding find_child_def by (simp add: find_None_iff)

text \<open>
  C6: the issuer and recipient extractors take the first \<^verbatim>\<open>Emisor\<close> (\<^verbatim>\<open>Receptor\<close>) child in
  the current namespace \<^verbatim>\<open>http://www.sat.gob.mx/cfd/4\<close>; when the root has no such child
  they take the first one in the legacy namespace \<^verbatim>\<open>http://www.sat.gob.mx/cfd/3\<close> and
  return its attributes; only when the root has neither do they return the all-null
  dictionary. Here \<open>pre @ e # post\<close> splits the children of the root at the first
  matching child \<open>e\<close>.
\<close>

theorem emisor_receptor_namespace_fallback:
  "(children r = pre @ e # post \<and> tag e = ''{http://www.sat.gob.mx/cfd/4}Emisor''
      \<and> (\<forall>c \<in> set pre. tag c \<noteq> ''{http://www.sat.gob.mx/cfd/4}Emisor'')
    \<longrightarrow> extraer_emisor r = PDict [(''rfc'', val (get e ''Rfc'')),
                                  (''nombre'', get_default e ''Nombre'' (PStr ''Sin Nombre'')),
                                  (''regimen_fiscal'', val (get e ''RegimenFiscal''))]
      \<and> scripts_extraer_emisor r = extraer_emisor r)
   \<and> ((\<forall>c \<in> set (children r). tag c \<noteq> ''{http://www.sat.gob.mx/cfd/4}Emisor'')
      \<and> children r = pre @ e # post \<and> tag e = ''{http://www.sat.gob.mx/cfd/3}Emisor''
      \<and> (\<forall>c \<in> set pre. tag c \<noteq> ''{http://www.sat.gob.mx/cfd/3}Emisor'')
    \<longrightarrow> extraer_emisor r = PDict [(''rfc'', val (get e ''Rfc'')),
                                  (''nombre'', get_default e ''Nombre'' (PStr ''Sin Nombre'')),
                                  (''regimen_fiscal'', val (get e ''RegimenFiscal''))]
      \<and> scripts_extraer_emisor r = extraer_emisor r)
   \<and> ((\<forall>c \<in> set (children r). tag c \<noteq> ''{http://www.sat.gob.mx/cfd/4}Emisor''
                                \<and> tag c \<noteq> ''{http://www.sat.gob.mx/cfd/3}Emisor'')
    \<longrightarrow> extraer_emisor r = PDict [(''rfc'', PNone), (''nombre'', PNone), (''regimen_fiscal'', PNone)]
      \<and> scripts_extraer_emisor r = extraer_emisor r)
   \<and> (children r = pre' @ e' # post' \<and> tag e' = ''{http://www.sat.gob.mx/cfd/4}Receptor''
      \<and> (\<forall>c \<in> set pre'. tag c \<noteq> ''{http://www.sat.gob.mx/cfd/4}Receptor'')
    \<longrightarrow> extraer_receptor r = PDict [(''rfc'', val (get e' ''Rfc'')),
                                  (''nombre'', get_default e' ''Nombre'' (PStr ''Sin Nombre'')),
                                  (''uso_cfdi'', val (get e' ''UsoCFDI'')),
                                  (''regimen_fiscal'', val (get e' ''RegimenFiscalReceptor'')),
                                  (''domicilio_fiscal'', val (get e' ''DomicilioFiscalReceptor'')),
                                  (''domicilio_fiscal_receptor'', val (get e' ''DomicilioFiscalReceptor''))])
   \<and> ((\<forall>c \<in> set (children r). tag c \<noteq> ''{http://www.sat.gob.mx/cfd/4}Receptor'')
      \<and> children r = pre' @ e' # post' \<and> tag e' = ''{http://www.sat.gob.mx/cfd/3}Receptor''
      \<and> (\<forall>c \<in> set pre'. tag c \<noteq> ''{http://www.sat.gob.mx/cfd/3}Receptor'')
    \<longrightarrow> extraer_receptor r = PDict [(''rfc'', val (get e' ''Rfc'')),
                                  (''nombre'', get_default e' ''Nombre'' (PStr ''Sin Nombre'')),
                                  (''uso_cfdi'', val (get e' ''UsoCFDI'')),
                                  (''regimen_fiscal'', val (get e' ''RegimenFiscalReceptor'')),
                                  (''domicilio_fiscal'', val (get e' ''DomicilioFiscalReceptor'')),
                                  (''domicilio_fiscal_receptor'', val (get e' ''DomicilioFiscalReceptor''))])
   \<and> ((\<forall>c \<in> set (children r). tag c \<noteq> ''{http://www.sat.gob.mx/cfd/4}Receptor''
                                \<and> tag c \<noteq> ''{http://www.sat.gob.mx/cfd/3}Receptor'')
    \<longrightarrow> extraer_receptor r = PDict [(''rfc'', PNone), (''nombre'', PNone), (''uso_cfdi'', PNone),
                                  (''regimen_fiscal'', PNone), (''domicilio_fiscal'', PNone),
                                  (''domicilio_fiscal_receptor'', PNone)])"
proof -
  have q: "qname cfdi ''Emisor'' = ''{http://www.sat.gob.mx/cfd/4}Emisor''"
    "qname cfdi33 ''Emisor'' = ''{http://www.sat.gob.mx/cfd/3}Emisor''"
    "qname cfdi ''Receptor'' = ''{http://www.sat.gob.mx/cfd/4}Receptor''"
    "qname cfdi33 ''Receptor'' = ''{http://www.sat.gob.mx/cfd/3}Receptor''"
    by (simp_all add: qname_def)
  show ?thesis
    unfolding extraer_emisor_def scripts_extraer_emisor_def extraer_receptor_def q
    by (intro conjI impI; (elim conjE)?)
       (simp_all add: find_child_first find_child_none)
qed

theorem emisor_receptor_namespace_fallback_witness:
  "extraer_emisor doc_legacy = PDict [(''rfc'', PStr ''AAA010101AAA''), (''nombre'', PStr ''Sin Nombre''),
                                      (''regimen_fiscal'', PStr ''601'')]
   \<and> extraer_receptor doc_legacy = PDict [(''rfc'', PStr ''XAXX010101000''), (''nombre'', PStr ''Sin Nombre''),
                                      (''uso_cfdi'', PStr ''G03''), (''regimen_fiscal'', PNone),
                                      (''domicilio_fiscal'', PNone), (''domicilio_fiscal_receptor'', PNone)]
   \<and> extraer_emisor doc_sin_atributos = PDict [(''rfc'', PNone), (''nombre'', PNone), (''regimen_fiscal'', PNone)]"
proof -
  note a = emisor_receptor_namespace_fallback [of doc_legacy "[]"
      "Element ''{http://www.sat.gob.mx/cfd/3}Emisor'' [(''Rfc'', ''AAA010101AAA''), (''RegimenFiscal'', ''601'')] []"
      "[Element ''{http://www.sat.gob.mx/cfd/3}Receptor'' [(''Rfc'', ''XAXX010101000''), (''UsoCFDI'', ''G03'')] []]"
      "[Element ''{http://www.sat.gob.mx/cfd/3}Emisor'' [(''Rfc'', ''AAA010101AAA''), (''RegimenFiscal'', ''601'')] []]"
      "Element ''{http://www.sat.gob.mx/cfd/3}Receptor'' [(''Rfc'', ''XAXX010101000''), (''UsoCFDI'', ''G03'')] []"
      "[]"]
  note b = emisor_receptor_namespace_fallback [of doc_sin_atributos]
  have 1: "extraer_emisor doc_legacy = PDict [(''rfc'', PStr ''AAA010101AAA''), (''nombre'', PStr ''Sin Nombre''),
                                      (''regimen_fiscal'', PStr ''601'')]"
    using a by (simp add: doc_legacy_def get_def get_default_def val_def)
  have 2: "extraer_receptor doc_legacy = PDict [(''rfc'', PStr ''XAXX010101000''), (''nombre'', PStr ''Sin Nombre''),
                                      (''uso_cfdi'', PStr ''G03''), (''regimen_fiscal'', PNone),
                                      (''domicilio_fiscal'', PNone), (''domicilio_fiscal_receptor'', PNone)]"
    using a by (simp add: doc_legacy_def get_def get_default_def val_def)
  have 3: "extraer_emisor doc_sin_atributos = PDict [(''rfc'', PNone), (''nombre'', PNone), (''regimen_fiscal'', PNone)]"
    using b by (simp add: doc_sin_atributos_def)
  from 1 2 3 show ?thesis by simp
qed

subsection \<open>Taxes of a line item\<close>

lemma for_each_eq_Inr: "for_each f xs = Inr ys \<longleftrightarrow> list_all2 (\<lambda>x y. f x = Inr y) xs ys"
proof (induction xs arbitrary: ys)
  case Nil
  then show ?case by auto
next
  case (Cons x xs)
  show ?case
    by (cases ys) (auto simp: bind_err_eq_Inr Cons.IH)
qed




subsection \<open>One entry per element found\<close>

text \<open>The lists the extractors return hold one entry per element found, computed by the
  loop bodies \<open>concepto_data\<close>, \<open>pago_data\<close> and \<open>doc_relacionado\<close>.\<close>

lemma conceptos_entries:
  "extraer_conceptos r = Inr v \<Longrightarrow>
   \<exists>ds. v = PList ds \<and>
     list_all2 (\<lambda>c d. concepto_data c = Inr d)
       (if findall_path r (qname cfdi ''Conceptos'') (qname cfdi ''Concepto'') = []
        then findall_path r (qname cfdi33 ''Conceptos'') (qname cfdi33 ''Concepto'')
        else findall_path r (qname cfdi ''Conceptos'') (qname cfdi ''Concepto'')) ds"
  unfolding extraer_conceptos_def Let_def
  by (auto simp: bind_err_eq_Inr for_each_eq_Inr)

lemma complemento_pagos_entries:
  "extraer_complemento_pagos p = Inr v \<Longrightarrow>
   \<exists>ds. v = PList ds \<and>
     list_all2 (\<lambda>c d. pago_data c = Inr d)
       (if findall_desc p (qname pago20 ''Pago'') = [] then findall_desc p (qname pago10 ''Pago'')
        else findall_desc p (qname pago20 ''Pago'')) ds"
  unfolding extraer_complemento_pagos_def Let_def
  by (auto simp: bind_err_eq_Inr for_each_eq_Inr)

lemma pago_data_entries:
  "pago_data p = Inr v \<Longrightarrow>
   \<exists>ds. subscript v ''documentos_relacionados'' = Inr (PList ds) \<and>
     list_all2 (\<lambda>c d. doc_relacionado c = Inr d)
       (if findall_desc p (qname pago20 ''DoctoRelacionado'') = []
        then findall_desc p (qname pago10 ''DoctoRelacionado'')
        else findall_desc p (qname pago20 ''DoctoRelacionado'')) ds"
  unfolding pago_data_def Let_def
  by (auto simp: bind_err_eq_Inr for_each_eq_Inr)

subsection \<open>Loader failures\<close>

text \<open>
  C4, as stated, fails: the loader returns \<^verbatim>\<open>None\<close> for a missing file, for malformed XML
  and for an unreadable file alike, so the value it returns does not tell the failures
  apart.
\<close>

theorem cargar_cfdi_failures_indistinguishable:
  "snd (cargar_cfdi mundo_inexistente ''factura.xml'') = None
   \<and> snd (cargar_cfdi mundo_mal_formado ''factura.xml'') = None
   \<and> snd (cargar_cfdi mundo_ilegible ''factura.xml'') = None
   \<and> snd (cargar_cfdi mundo_inexistente ''factura.xml'') = snd (cargar_cfdi mundo_mal_formado ''factura.xml'')"
  by (simp add: cargar_cfdi_def mundo_inexistente_def mundo_mal_formado_def mundo_ilegible_def)

text \<open>
  C4, amended: the loader returns \<^verbatim>\<open>None\<close> for every failure and tells the kinds apart
  only in the line it prints: a path that does not exist and any exception other than a
  ParseError print the "unexpected error" line (with the not-found message, or the
  exception's message), malformed XML prints the "parse error" line with the parser's
  message. After any of them \<^verbatim>\<open>procesar_cfdi_completo\<close> returns \<^verbatim>\<open>None\<close>: no exception
  escapes and no partial record is built.
\<close>

theorem cargar_cfdi_failures:
  "(\<not> path_exists w p \<longrightarrow>
      cargar_cfdi w p =
        ([ErrorInesperado (''No se encontr'' @ [CHR 0xC3, CHR 0xB3] @ '' el archivo: '' @ p)], None))
   \<and> (path_exists w p \<and> et_parse w p = ParseError m \<longrightarrow> cargar_cfdi w p = ([ErrorParsear m], None))
   \<and> (path_exists w p \<and> et_parse w p = OtherError m \<longrightarrow> cargar_cfdi w p = ([ErrorInesperado m], None))
   \<and> (path_exists w p \<and> et_parse w p = Tree t \<longrightarrow>
        cargar_cfdi w p = ([Cargado (detectar_version t)], Some t))
   \<and> (snd (cargar_cfdi w p) = None \<longrightarrow>
        procesar_cfdi_completo w p = ([Procesando p, Separador] @ fst (cargar_cfdi w p), Inr PNone))"
  by (auto simp: cargar_cfdi_def procesar_cfdi_completo_def split: parse_result.splits prod.splits)

theorem cargar_cfdi_failures_witness:
  "cargar_cfdi mundo_mal_formado ''factura.xml''
     = ([ErrorParsear ''no element found: line 1, column 0''], None)
   \<and> cargar_cfdi mundo_ilegible ''factura.xml'' = ([ErrorInesperado ''[Errno 13] Permission denied''], None)
   \<and> cargar_cfdi mundo_inexistente ''factura.xml''
     = ([ErrorInesperado (''No se encontr'' @ [CHR 0xC3, CHR 0xB3] @ '' el archivo: factura.xml'')], None)
   \<and> procesar_cfdi_completo mundo_mal_formado ''factura.xml''
     = ([Procesando ''factura.xml'', Separador, ErrorParsear ''no element found: line 1, column 0''],
        Inr PNone)"
proof -
  have a: "path_exists mundo_mal_formado ''factura.xml''
           \<and> et_parse mundo_mal_formado ''factura.xml'' = ParseError ''no element found: line 1, column 0''"
    by (simp add: mundo_mal_formado_def)
  have b: "path_exists mundo_ilegible ''factura.xml''
           \<and> et_parse mundo_ilegible ''factura.xml'' = OtherError ''[Errno 13] Permission denied''"
    by (simp add: mundo_ilegible_def)
  have c: "\<not> path_exists mundo_inexistente ''factura.xml''"
    by (simp add: mundo_inexistente_def)
  have 1: "cargar_cfdi mundo_mal_formado ''factura.xml''
             = ([ErrorParsear ''no element found: line 1, column 0''], None)"
    using cargar_cfdi_failures [of mundo_mal_formado "''factura.xml''" "''no element found: line 1, column 0''"] a
    by blast
  have 2: "cargar_cfdi mundo_ilegible ''factura.xml'' = ([ErrorInesperado ''[Errno 13] Permission denied''], None)"
    using cargar_cfdi_failures [of mundo_ilegible "''factura.xml''" "''[Errno 13] Permission denied''"] b
    by blast
  have 3: "cargar_cfdi mundo_inexistente ''factura.xml''
     = ([ErrorInesperado (''No se encontr'' @ [CHR 0xC3, CHR 0xB3] @ '' el archivo: factura.xml'')], None)"
    using cargar_cfdi_failures [of mundo_inexistente "''factura.xml''"] c
    by simp
  have 4: "procesar_cfdi_completo mundo_mal_formado ''factura.xml''
     = ([Procesando ''factura.xml'', Separador, ErrorParsear ''no element found: line 1, column 0''],
        Inr PNone)"
    using cargar_cfdi_failures [of mundo_mal_formado "''factura.xml''"] 1
    by simp
  from 1 2 3 4 show ?thesis by blast
qed

subsection \<open>Record assembly\<close>

lemma datos_generales_shape:
  assumes "extraer_datos_generales r = Inr g"
  shows "\<exists>tc se fo tt mo. subscript g ''tipo_comprobante'' = Inr tc \<and> subscript g ''serie'' = Inr se
           \<and> subscript g ''folio'' = Inr fo \<and> subscript g ''total'' = Inr (PFloat tt)
           \<and> subscript g ''moneda'' = Inr mo"
  using assms unfolding extraer_datos_generales_def
  by (auto simp: bind_err_eq_Inr)

lemma emisor_shape:
  "\<exists>en er. subscript (extraer_emisor r) ''nombre'' = Inr en \<and> subscript (extraer_emisor r) ''rfc'' = Inr er"
  by (simp add: extraer_emisor_def Let_def split: option.splits)

lemma receptor_shape: "\<exists>rk. extraer_receptor r = PDict rk"
  by (simp add: extraer_receptor_def Let_def split: option.splits)

lemma timbre_shape: "\<exists>tk. extraer_timbre r = PDict tk"
  by (simp add: extraer_timbre_def split: option.splits)

lemma conceptos_shape: "extraer_conceptos r = Inr c \<Longrightarrow> \<exists>ds. c = PList ds"
  by (auto dest: conceptos_entries)

lemma complementos_shape: "extraer_complementos r = Inr k \<Longrightarrow> \<exists>ck. k = PDict ck"
  unfolding extraer_complementos_def Let_def
  by (auto simp: bind_err_eq_Inr split: option.splits)

lemma impuestos_shape: "extraer_impuestos_concepto r = Inr i \<Longrightarrow> \<exists>ik. i = PDict ik"
  unfolding extraer_impuestos_concepto_def
  by (auto simp: bind_err_eq_Inr)

lemma assembled_resumen:
  assumes "extraer_datos_generales r = Inr g" "extraer_conceptos r = Inr c"
    "extraer_complementos r = Inr k"
  shows "\<exists>ls. \<forall>a t i. mostrar_resumen (PDict [
                     (''archivo'', a),
                     (''fecha_procesamiento'', t),
                     (''datos_generales'', g),
                     (''emisor'', extraer_emisor r),
                     (''receptor'', extraer_receptor r),
                     (''conceptos'', c),
                     (''timbre'', extraer_timbre r),
                     (''complementos'', k),
                     (''impuestos'', i)]) = (ls, Inr ())"
proof -
  from datos_generales_shape [OF assms(1)] obtain tc se fo tt mo where
    g: "subscript g ''tipo_comprobante'' = Inr tc" "subscript g ''serie'' = Inr se"
       "subscript g ''folio'' = Inr fo" "subscript g ''total'' = Inr (PFloat tt)"
       "subscript g ''moneda'' = Inr mo"
    by blast
  from emisor_shape [of r] obtain en er where
    e: "subscript (extraer_emisor r) ''nombre'' = Inr en" "subscript (extraer_emisor r) ''rfc'' = Inr er"
    by blast
  from receptor_shape [of r] obtain rk where rk: "extraer_receptor r = PDict rk" by blast
  from timbre_shape [of r] obtain tk where tk: "extraer_timbre r = PDict tk" by blast
  from conceptos_shape [OF assms(2)] obtain ds where ds: "c = PList ds" by blast
  from complementos_shape [OF assms(3)] obtain ck where ck: "k = PDict ck" by blast
  show ?thesis
    by (cases "ck = []") (simp_all add: mostrar_resumen_def g e rk tk ds ck split: option.splits)
qed


lemma procesar_loaded:
  assumes "path_exists w p" "et_parse w p = Tree r"
  shows "procesar_cfdi_completo w p =
     (case bind_err (extraer_datos_generales r) (\<lambda>datos_generales.
           bind_err (extraer_conceptos r) (\<lambda>conceptos.
           bind_err (extraer_complementos r) (\<lambda>complementos.
           bind_err (extraer_impuestos_concepto r) (\<lambda>impuestos.
           Inr (PDict [
             (''archivo'', PStr p),
             (''fecha_procesamiento'', PStr (now_isoformat w)),
             (''datos_generales'', datos_generales),
             (''emisor'', extraer_emisor r),
             (''receptor'', extraer_receptor r),
             (''conceptos'', conceptos),
             (''timbre'', extraer_timbre r),
             (''complementos'', complementos),
             (''impuestos'', impuestos)]))))) of
        Inl e \<Rightarrow> ([Procesando p, Separador, Cargado (detectar_version r)], Inl e)
      | Inr resultado \<Rightarrow>
          ([Procesando p, Separador, Cargado (detectar_version r)] @ fst (mostrar_resumen resultado),
           case snd (mostrar_resumen resultado) of Inl e \<Rightarrow> Inl e | Inr u \<Rightarrow> Inr resultado))"
  using assms
  by (simp add: procesar_cfdi_completo_def cargar_cfdi_def split: sum.splits prod.splits)

lemma procesar_not_loaded:
  assumes "\<not> path_exists w p \<or> (\<forall>r. et_parse w p \<noteq> Tree r)"
  shows "procesar_cfdi_completo w p = ([Procesando p, Separador] @ fst (cargar_cfdi w p), Inr PNone)"
  using assms
  by (auto simp: procesar_cfdi_completo_def cargar_cfdi_def split: parse_result.splits)

lemma procesar_success:
  assumes "path_exists w p" "et_parse w p = Tree r"
    and "extraer_datos_generales r = Inr g" "extraer_conceptos r = Inr c"
    and "extraer_complementos r = Inr k" "extraer_impuestos_concepto r = Inr i"
  shows "\<exists>ls. \<forall>w'. path_exists w' p \<and> et_parse w' p = Tree r \<longrightarrow>
           procesar_cfdi_completo w' p =
             ([Procesando p, Separador, Cargado (detectar_version r)] @ ls,
              Inr (PDict [
                (''archivo'', PStr p),
                (''fecha_procesamiento'', PStr (now_isoformat w')),
                (''datos_generales'', g),
                (''emisor'', extraer_emisor r),
                (''receptor'', extraer_receptor r),
                (''conceptos'', c),
                (''timbre'', extraer_timbre r),
                (''complementos'', k),
                (''impuestos'', i)]))"
proof -
  from assembled_resumen [OF assms(3,4,5)] obtain ls where
    ls: "\<And>a t i. mostrar_resumen (PDict [
                     (''archivo'', a),
                     (''fecha_procesamiento'', t),
                     (''datos_generales'', g),
                     (''emisor'', extraer_emisor r),
                     (''receptor'', extraer_receptor r),
                     (''conceptos'', c),
                     (''timbre'', extraer_timbre r),
                     (''complementos'', k),
                     (''impuestos'', i)]) = (ls, Inr ())"
    by blast
  show ?thesis
    by (rule exI [where x = ls]) (simp add: procesar_loaded assms(3-6) ls)
qed

lemma procesar_failure:
  assumes "path_exists w p" "et_parse w p = Tree r"
    and "bind_err (extraer_datos_generales r) (\<lambda>g.
         bind_err (extraer_conceptos r) (\<lambda>c.
         bind_err (extraer_complementos r) (\<lambda>k.
         bind_err (extraer_impuestos_concepto r) (\<lambda>i. Inr ())))) = Inl e"
  shows "procesar_cfdi_completo w p = ([Procesando p, Separador, Cargado (detectar_version r)], Inl e)"
  using assms(3)
  by (cases "extraer_datos_generales r"; cases "extraer_conceptos r";
      cases "extraer_complementos r"; cases "extraer_impuestos_concepto r")
     (simp_all add: procesar_loaded [OF assms(1,2)])


lemma cargar_cfdi_cong:
  "path_exists w p = path_exists w' p \<Longrightarrow> et_parse w p = et_parse w' p \<Longrightarrow>
   cargar_cfdi w p = cargar_cfdi w' p"
  by (simp add: cargar_cfdi_def)

lemma doc_minimo_stages:
  "\<not> isl (extraer_datos_generales doc_minimo)" "\<not> isl (extraer_conceptos doc_minimo)"
  "\<not> isl (extraer_complementos doc_minimo)" "\<not> isl (extraer_impuestos_concepto doc_minimo)"
  by code_simp+

text \<open>
  C9, as stated, fails: the record holds \<^verbatim>\<open>fecha_procesamiento\<close>, the clock reading of the
  invocation, so two invocations on the same document at different times return
  different records.
\<close>

theorem procesar_timestamp_differs:
  "et_parse (mundo_minimo ''2026-01-01T00:00:00'') ''factura.xml''
     = et_parse (mundo_minimo ''2026-01-01T00:00:01'') ''factura.xml''
   \<and> field ''fecha_procesamiento'' (snd (procesar_cfdi_completo (mundo_minimo ''2026-01-01T00:00:00'') ''factura.xml''))
       = Inr (PStr ''2026-01-01T00:00:00'')
   \<and> field ''fecha_procesamiento'' (snd (procesar_cfdi_completo (mundo_minimo ''2026-01-01T00:00:01'') ''factura.xml''))
       = Inr (PStr ''2026-01-01T00:00:01'')
   \<and> snd (procesar_cfdi_completo (mundo_minimo ''2026-01-01T00:00:00'') ''factura.xml'')
       \<noteq> snd (procesar_cfdi_completo (mundo_minimo ''2026-01-01T00:00:01'') ''factura.xml'')"
proof -
  let ?w1 = "mundo_minimo ''2026-01-01T00:00:00''" and ?w2 = "mundo_minimo ''2026-01-01T00:00:01''"
  obtain g c k i where st: "extraer_datos_generales doc_minimo = Inr g"
    "extraer_conceptos doc_minimo = Inr c" "extraer_complementos doc_minimo = Inr k"
    "extraer_impuestos_concepto doc_minimo = Inr i"
    using doc_minimo_stages by (auto simp: isl_def) (metis sum.exhaust_sel sumE)
  have ld: "path_exists ?w1 ''factura.xml''" "et_parse ?w1 ''factura.xml'' = Tree doc_minimo"
    "path_exists ?w2 ''factura.xml''" "et_parse ?w2 ''factura.xml'' = Tree doc_minimo"
    by (simp_all add: mundo_minimo_def)
  from procesar_success [OF ld(1,2) st] obtain ls where
    ls: "\<And>w'. path_exists w' ''factura.xml'' \<and> et_parse w' ''factura.xml'' = Tree doc_minimo \<longrightarrow>
           procesar_cfdi_completo w' ''factura.xml'' =
             ([Procesando ''factura.xml'', Separador, Cargado (detectar_version doc_minimo)] @ ls,
              Inr (PDict [
                (''archivo'', PStr ''factura.xml''),
                (''fecha_procesamiento'', PStr (now_isoformat w')),
                (''datos_generales'', g),
                (''emisor'', extraer_emisor doc_minimo),
                (''receptor'', extraer_receptor doc_minimo),
                (''conceptos'', c),
                (''timbre'', extraer_timbre doc_minimo),
                (''complementos'', k),
                (''impuestos'', i)]))"
    by blast
  have n: "now_isoformat ?w1 = ''2026-01-01T00:00:00''" "now_isoformat ?w2 = ''2026-01-01T00:00:01''"
    by (simp_all add: mundo_minimo_def)
  show ?thesis
    using ls [of ?w1] ls [of ?w2] ld n by (simp add: field_def)
qed

lemma stages_outcome:
  "(\<exists>e. bind_err (extraer_datos_generales r) (\<lambda>g.
         bind_err (extraer_conceptos r) (\<lambda>c.
         bind_err (extraer_complementos r) (\<lambda>k.
         bind_err (extraer_impuestos_concepto r) (\<lambda>i. Inr ())))) = Inl e)
   \<or> (\<exists>g c k i. extraer_datos_generales r = Inr g \<and> extraer_conceptos r = Inr c
         \<and> extraer_complementos r = Inr k \<and> extraer_impuestos_concepto r = Inr i)"
  by (cases "extraer_datos_generales r"; cases "extraer_conceptos r";
      cases "extraer_complementos r"; cases "extraer_impuestos_concepto r") simp_all

text \<open>
  C9, amended: the outcome of \<^verbatim>\<open>procesar_cfdi_completo\<close> on a path depends only on whether
  the path exists, on what the parser makes of the file, and on the clock. Two invocations
  on the same document print the same lines and return results that are equal once the
  field \<^verbatim>\<open>fecha_procesamiento\<close> is left out; they are equal outright when the clock reads
  the same; and the field \<^verbatim>\<open>fecha_procesamiento\<close> of a returned record is the clock reading
  of that invocation. Nothing else is carried from one invocation to the next.
\<close>

theorem procesar_same_document:
  "path_exists w p = path_exists w' p \<and> et_parse w p = et_parse w' p \<longrightarrow>
     fst (procesar_cfdi_completo w p) = fst (procesar_cfdi_completo w' p)
   \<and> map_sum id (without ''fecha_procesamiento'') (snd (procesar_cfdi_completo w p))
       = map_sum id (without ''fecha_procesamiento'') (snd (procesar_cfdi_completo w' p))
   \<and> (now_isoformat w = now_isoformat w' \<longrightarrow> procesar_cfdi_completo w p = procesar_cfdi_completo w' p)
   \<and> (snd (procesar_cfdi_completo w p) = Inr (PDict d) \<longrightarrow>
        map_of d ''fecha_procesamiento'' = Some (PStr (now_isoformat w)))"
proof
  assume same: "path_exists w p = path_exists w' p \<and> et_parse w p = et_parse w' p"
  let ?goal = "fst (procesar_cfdi_completo w p) = fst (procesar_cfdi_completo w' p)
   \<and> map_sum id (without ''fecha_procesamiento'') (snd (procesar_cfdi_completo w p))
       = map_sum id (without ''fecha_procesamiento'') (snd (procesar_cfdi_completo w' p))
   \<and> (now_isoformat w = now_isoformat w' \<longrightarrow> procesar_cfdi_completo w p = procesar_cfdi_completo w' p)
   \<and> (snd (procesar_cfdi_completo w p) = Inr (PDict d) \<longrightarrow>
        map_of d ''fecha_procesamiento'' = Some (PStr (now_isoformat w)))"
  show ?goal
  proof (cases "path_exists w p \<and> (\<exists>r. et_parse w p = Tree r)")
    case False
    then have a: "\<not> path_exists w p \<or> (\<forall>r. et_parse w p \<noteq> Tree r)" by blast
    with same have b: "\<not> path_exists w' p \<or> (\<forall>r. et_parse w' p \<noteq> Tree r)" by simp
    from same have "cargar_cfdi w p = cargar_cfdi w' p" by (intro cargar_cfdi_cong) simp_all
    then show ?thesis
      by (simp add: procesar_not_loaded [OF a] procesar_not_loaded [OF b])
  next
    case True
    then obtain r where l: "path_exists w p" "et_parse w p = Tree r" by blast
    with same have l': "path_exists w' p" "et_parse w' p = Tree r" by simp_all
    from stages_outcome [of r] show ?thesis
    proof (elim disjE exE conjE)
      fix e
      assume "bind_err (extraer_datos_generales r) (\<lambda>g.
         bind_err (extraer_conceptos r) (\<lambda>c.
         bind_err (extraer_complementos r) (\<lambda>k.
         bind_err (extraer_impuestos_concepto r) (\<lambda>i. Inr ())))) = Inl e"
      then have "procesar_cfdi_completo w p = ([Procesando p, Separador, Cargado (detectar_version r)], Inl e)"
        and "procesar_cfdi_completo w' p = ([Procesando p, Separador, Cargado (detectar_version r)], Inl e)"
        by (rule procesar_failure [OF l], rule procesar_failure [OF l'])
      then show ?thesis
        by simp
    next
      fix g c k i
      assume st: "extraer_datos_generales r = Inr g" "extraer_conceptos r = Inr c"
        "extraer_complementos r = Inr k" "extraer_impuestos_concepto r = Inr i"
      from procesar_success [OF l st] obtain ls where
        ls: "\<And>v. path_exists v p \<and> et_parse v p = Tree r \<longrightarrow>
           procesar_cfdi_completo v p =
             ([Procesando p, Separador, Cargado (detectar_version r)] @ ls,
              Inr (PDict [
                (''archivo'', PStr p),
                (''fecha_procesamiento'', PStr (now_isoformat v)),
                (''datos_generales'', g),
                (''emisor'', extraer_emisor r),
                (''receptor'', extraer_receptor r),
                (''conceptos'', c),
                (''timbre'', extraer_timbre r),
                (''complementos'', k),
                (''impuestos'', i)]))"
        by blast
      from ls [of w] l ls [of w'] l'
      have e1: "procesar_cfdi_completo w p =
             ([Procesando p, Separador, Cargado (detectar_version r)] @ ls,
              Inr (PDict [
                (''archivo'', PStr p),
                (''fecha_procesamiento'', PStr (now_isoformat w)),
                (''datos_generales'', g),
                (''emisor'', extraer_emisor r),
                (''receptor'', extraer_receptor r),
                (''conceptos'', c),
                (''timbre'', extraer_timbre r),
                (''complementos'', k),
                (''impuestos'', i)]))"
        and e2: "procesar_cfdi_completo w' p =
             ([Procesando p, Separador, Cargado (detectar_version r)] @ ls,
              Inr (PDict [
                (''archivo'', PStr p),
                (''fecha_procesamiento'', PStr (now_isoformat w')),
                (''datos_generales'', g),
                (''emisor'', extraer_emisor r),
                (''receptor'', extraer_receptor r),
                (''conceptos'', c),
                (''timbre'', extraer_timbre r),
                (''complementos'', k),
                (''impuestos'', i)]))"
        by blast+
      show ?thesis
        unfolding e1 e2 by auto
    qed
  qed
qed

theorem procesar_same_document_witness:
  "path_exists (mundo_minimo ''2026-01-01T00:00:00'') ''factura.xml''
     = path_exists (mundo_minimo ''2026-01-01T00:00:01'') ''factura.xml''
   \<and> et_parse (mundo_minimo ''2026-01-01T00:00:00'') ''factura.xml''
     = et_parse (mundo_minimo ''2026-01-01T00:00:01'') ''factura.xml''
   \<and> fst (procesar_cfdi_completo (mundo_minimo ''2026-01-01T00:00:00'') ''factura.xml'')
     = fst (procesar_cfdi_completo (mundo_minimo ''2026-01-01T00:00:01'') ''factura.xml'')
   \<and> map_sum id (without ''fecha_procesamiento'')
        (snd (procesar_cfdi_completo (mundo_minimo ''2026-01-01T00:00:00'') ''factura.xml''))
     = map_sum id (without ''fecha_procesamiento'')
        (snd (procesar_cfdi_completo (mundo_minimo ''2026-01-01T00:00:01'') ''factura.xml''))"
proof -
  have same: "path_exists (mundo_minimo ''2026-01-01T00:00:00'') ''factura.xml''
       = path_exists (mundo_minimo ''2026-01-01T00:00:01'') ''factura.xml''
     \<and> et_parse (mundo_minimo ''2026-01-01T00:00:00'') ''factura.xml''
       = et_parse (mundo_minimo ''2026-01-01T00:00:01'') ''factura.xml''"
    by (simp add: mundo_minimo_def)
  with procesar_same_document [of "mundo_minimo ''2026-01-01T00:00:00''" "''factura.xml''"
      "mundo_minimo ''2026-01-01T00:00:01''"]
  show ?thesis by blast
qed

subsection \<open>Totality of the stages after the loader\<close>

lemma descendant_of_trans: "descendant_of d e \<Longrightarrow> descendant_of x d \<Longrightarrow> descendant_of x e"
  by (induction rule: descendant_of.induct) (auto intro: descendant_of.intros)

lemma descendants_trans:
  "d \<in> set (descendants e) \<Longrightarrow> x \<in> set (descendants d) \<Longrightarrow> x \<in> set (descendants e)"
  by (meson descendant_of_trans descendants_sound descendants_complete)

lemma numeric_ok_descendant: "numeric_ok e \<Longrightarrow> d \<in> set (descendants e) \<Longrightarrow> numeric_ok d"
  unfolding numeric_ok_def by (blast intro: descendants_trans)

lemma findall_desc_subset: "x \<in> set (findall_desc e t) \<Longrightarrow> x \<in> set (descendants e)"
  by (simp add: findall_desc_descendants)

lemma findall_path_subset: "x \<in> set (findall_path e a b) \<Longrightarrow> x \<in> set (descendants e)"
proof -
  assume "x \<in> set (findall_path e a b)"
  then obtain c where "c \<in> set (children e)" "x \<in> set (children c)"
    by (auto simp: findall_path_def)
  then have "descendant_of x e"
    by (auto intro: descendant_of.intros)
  then show ?thesis by (rule descendants_complete)
qed

lemma float_attr_ok:
  "attrs_numeric e \<Longrightarrow> k \<in> set numeric_attributes \<Longrightarrow>
   \<exists>f. py_float (get_default e k (PInt 0)) = Inr f"
  unfolding attrs_numeric_def get_default_def
  by (cases "get e k") (auto split: option.splits)

lemma for_each_total: "\<forall>x \<in> set xs. \<exists>y. f x = Inr y \<Longrightarrow> \<exists>ys. for_each f xs = Inr ys"
  by (induction xs) auto

lemma impuesto_entry_ok: "attrs_numeric t \<Longrightarrow> \<exists>v. impuesto_entry t = Inr v"
proof -
  assume a: "attrs_numeric t"
  obtain b where "py_float (get_default t ''Base'' (PInt 0)) = Inr b"
    using float_attr_ok [OF a, of "''Base''"] by (auto simp: numeric_attributes_def)
  moreover obtain c where "py_float (get_default t ''TasaOCuota'' (PInt 0)) = Inr c"
    using float_attr_ok [OF a, of "''TasaOCuota''"] by (auto simp: numeric_attributes_def)
  moreover obtain d where "py_float (get_default t ''Importe'' (PInt 0)) = Inr d"
    using float_attr_ok [OF a, of "''Importe''"] by (auto simp: numeric_attributes_def)
  ultimately show ?thesis by (simp add: impuesto_entry_def)
qed

lemma impuestos_concepto_ok:
  assumes "numeric_ok c"
  shows "\<exists>d. extraer_impuestos_concepto c = Inr (PDict d)"
proof -
  have "\<forall>x \<in> set (findall_desc c t). \<exists>y. impuesto_entry x = Inr y" for t
    using assms by (auto simp: numeric_ok_def dest: findall_desc_subset intro: impuesto_entry_ok)
  then obtain ts rs where
    "for_each impuesto_entry (findall_desc c (qname cfdi ''Traslado'')) = Inr ts"
    "for_each impuesto_entry (findall_desc c (qname cfdi ''Retencion'')) = Inr rs"
    by (meson for_each_total)
  then show ?thesis by (simp add: extraer_impuestos_concepto_def)
qed


lemma datos_generales_ok:
  assumes "attrs_numeric r"
  shows "\<exists>d. extraer_datos_generales r = Inr (PDict d)"
proof -
  obtain a where "py_float (get_default r ''SubTotal'' (PInt 0)) = Inr a"
    using float_attr_ok [OF assms, of "''SubTotal''"] by (auto simp: numeric_attributes_def)
  moreover obtain b where "py_float (get_default r ''Total'' (PInt 0)) = Inr b"
    using float_attr_ok [OF assms, of "''Total''"] by (auto simp: numeric_attributes_def)
  ultimately show ?thesis by (simp add: extraer_datos_generales_def)
qed

lemma concepto_data_ok:
  assumes "numeric_ok c"
  shows "\<exists>v. concepto_data c = Inr v"
proof -
  from assms have a: "attrs_numeric c" by (simp add: numeric_ok_def)
  obtain q where "py_float (get_default c ''Cantidad'' (PInt 0)) = Inr q"
    using float_attr_ok [OF a, of "''Cantidad''"] by (auto simp: numeric_attributes_def)
  moreover obtain v where "py_float (get_default c ''ValorUnitario'' (PInt 0)) = Inr v"
    using float_attr_ok [OF a, of "''ValorUnitario''"] by (auto simp: numeric_attributes_def)
  moreover obtain i where "py_float (get_default c ''Importe'' (PInt 0)) = Inr i"
    using float_attr_ok [OF a, of "''Importe''"] by (auto simp: numeric_attributes_def)
  moreover obtain d where "py_float (get_default c ''Descuento'' (PInt 0)) = Inr d"
    using float_attr_ok [OF a, of "''Descuento''"] by (auto simp: numeric_attributes_def)
  moreover obtain t where "extraer_impuestos_concepto c = Inr (PDict t)"
    using impuestos_concepto_ok [OF assms] by blast
  ultimately show ?thesis by (simp add: concepto_data_def)
qed

lemma conceptos_ok:
  assumes "numeric_ok r"
  shows "\<exists>ds. extraer_conceptos r = Inr (PList ds)"
proof -
  have "\<forall>x \<in> set (findall_path r a b). \<exists>y. concepto_data x = Inr y" for a b
    using assms by (blast intro: concepto_data_ok numeric_ok_descendant findall_path_subset)
  then have "\<exists>ys. for_each concepto_data (findall_path r a b) = Inr ys" for a b
    by (rule for_each_total)
  then show ?thesis
    by (auto simp: extraer_conceptos_def Let_def bind_err_eq_Inr)
qed

lemma traslado_dr_entry_ok: "attrs_numeric t \<Longrightarrow> \<exists>v. traslado_dr_entry t = Inr v"
proof -
  assume a: "attrs_numeric t"
  obtain b where "py_float (get_default t ''BaseDR'' (PInt 0)) = Inr b"
    using float_attr_ok [OF a, of "''BaseDR''"] by (auto simp: numeric_attributes_def)
  moreover obtain c where "py_float (get_default t ''TasaOCuotaDR'' (PInt 0)) = Inr c"
    using float_attr_ok [OF a, of "''TasaOCuotaDR''"] by (auto simp: numeric_attributes_def)
  moreover obtain d where "py_float (get_default t ''ImporteDR'' (PInt 0)) = Inr d"
    using float_attr_ok [OF a, of "''ImporteDR''"] by (auto simp: numeric_attributes_def)
  ultimately show ?thesis by (simp add: traslado_dr_entry_def)
qed

lemma traslados_dr_ok:
  assumes "numeric_ok i"
  shows "\<exists>ys. for_each traslado_dr_entry (findall_desc i t) = Inr ys"
proof (rule for_each_total, rule ballI)
  fix x assume "x \<in> set (findall_desc i t)"
  then have "numeric_ok x"
    using assms by (blast intro: numeric_ok_descendant findall_desc_subset)
  then show "\<exists>y. traslado_dr_entry x = Inr y"
    by (simp add: numeric_ok_def traslado_dr_entry_ok)
qed

lemma doc_relacionado_ok:
  assumes "numeric_ok doc"
  shows "\<exists>v. doc_relacionado doc = Inr v"
proof -
  from assms have a: "attrs_numeric doc" by (simp add: numeric_ok_def)
  obtain x where x: "py_float (get_default doc ''ImpSaldoAnt'' (PInt 0)) = Inr x"
    using float_attr_ok [OF a, of "''ImpSaldoAnt''"] by (auto simp: numeric_attributes_def)
  obtain y where y: "py_float (get_default doc ''ImpPagado'' (PInt 0)) = Inr y"
    using float_attr_ok [OF a, of "''ImpPagado''"] by (auto simp: numeric_attributes_def)
  obtain z where z: "py_float (get_default doc ''ImpSaldoInsoluto'' (PInt 0)) = Inr z"
    using float_attr_ok [OF a, of "''ImpSaldoInsoluto''"] by (auto simp: numeric_attributes_def)
  have imp: "find_desc doc t = Some i \<Longrightarrow> numeric_ok i" for t i
    using assms by (blast intro: numeric_ok_descendant dest: find_desc_Some)
  have "\<exists>ts. (case (if find_desc doc (qname pago20 ''ImpuestosDR'') = None
                      then find_desc doc (qname pago10 ''ImpuestosDR'')
                      else find_desc doc (qname pago20 ''ImpuestosDR'')) of
                 None \<Rightarrow> Inr []
               | Some imp \<Rightarrow>
                   (let traslados = findall_desc imp (qname pago20 ''TrasladoDR'');
                        traslados = (if traslados = [] then findall_desc imp (qname pago10 ''TrasladoDR'')
                                     else traslados)
                    in for_each traslado_dr_entry traslados)) = Inr ts"
    using imp traslados_dr_ok by (auto simp: Let_def split: option.splits)
  then show ?thesis
    using x y z by (auto simp: doc_relacionado_def Let_def)
qed

lemma pago_data_ok:
  assumes "numeric_ok pago"
  shows "\<exists>v. pago_data pago = Inr v"
proof -
  from assms have a: "attrs_numeric pago" by (simp add: numeric_ok_def)
  obtain m where m: "py_float (get_default pago ''Monto'' (PInt 0)) = Inr m"
    using float_attr_ok [OF a, of "''Monto''"] by (auto simp: numeric_attributes_def)
  have "\<forall>x \<in> set (findall_desc pago t). \<exists>y. doc_relacionado x = Inr y" for t
    using assms by (blast intro: doc_relacionado_ok numeric_ok_descendant findall_desc_subset)
  then have "\<exists>ys. for_each doc_relacionado (findall_desc pago t) = Inr ys" for t
    by (rule for_each_total)
  then show ?thesis
    using m by (auto simp: pago_data_def Let_def bind_err_eq_Inr)
qed

lemma complemento_pagos_ok:
  assumes "numeric_ok pagos"
  shows "\<exists>v. extraer_complemento_pagos pagos = Inr v"
proof -
  have "\<forall>x \<in> set (findall_desc pagos t). \<exists>y. pago_data x = Inr y" for t
    using assms by (blast intro: pago_data_ok numeric_ok_descendant findall_desc_subset)
  then have "\<exists>ys. for_each pago_data (findall_desc pagos t) = Inr ys" for t
    by (rule for_each_total)
  then show ?thesis
    by (auto simp: extraer_complemento_pagos_def Let_def bind_err_eq_Inr)
qed

lemma complementos_ok:
  assumes "numeric_ok r"
  shows "\<exists>d. extraer_complementos r = Inr (PDict d)"
proof -
  have "find_desc r t = Some p \<Longrightarrow> \<exists>v. extraer_complemento_pagos p = Inr v" for t p
    using assms by (blast intro: complemento_pagos_ok numeric_ok_descendant dest: find_desc_Some)
  then show ?thesis
    by (fastforce simp: extraer_complementos_def Let_def bind_err_eq_Inr split: option.splits)
qed

lemma float_attr_error:
  "py_float (get_default e k (PInt 0)) = Inl x \<Longrightarrow> is_value_error x"
  by (cases "get e k") (auto simp: get_default_def is_value_error_def split: option.splits)

lemma for_each_Inl: "for_each f xs = Inl x \<Longrightarrow> \<exists>y \<in> set xs. f y = Inl x"
  by (induction xs) (auto simp: bind_err_eq_Inl)

lemma impuesto_entry_error: "impuesto_entry t = Inl x \<Longrightarrow> is_value_error x"
  unfolding impuesto_entry_def by (auto simp: bind_err_eq_Inl dest: float_attr_error)

lemma impuestos_concepto_error: "extraer_impuestos_concepto c = Inl x \<Longrightarrow> is_value_error x"
  unfolding extraer_impuestos_concepto_def
  by (auto simp: bind_err_eq_Inl dest!: for_each_Inl dest: impuesto_entry_error)

lemma datos_generales_error: "extraer_datos_generales r = Inl x \<Longrightarrow> is_value_error x"
  unfolding extraer_datos_generales_def by (auto simp: bind_err_eq_Inl dest: float_attr_error)

lemma concepto_data_error: "concepto_data c = Inl x \<Longrightarrow> is_value_error x"
  unfolding concepto_data_def
  by (auto simp: bind_err_eq_Inl dest: float_attr_error impuestos_concepto_error)

lemma conceptos_error: "extraer_conceptos r = Inl x \<Longrightarrow> is_value_error x"
  unfolding extraer_conceptos_def Let_def
  by (auto simp: bind_err_eq_Inl dest!: for_each_Inl dest: concepto_data_error split: if_splits)

lemma traslado_dr_entry_error: "traslado_dr_entry t = Inl x \<Longrightarrow> is_value_error x"
  unfolding traslado_dr_entry_def by (auto simp: bind_err_eq_Inl dest: float_attr_error)

lemma doc_relacionado_error: "doc_relacionado d = Inl x \<Longrightarrow> is_value_error x"
  unfolding doc_relacionado_def Let_def
  by (auto simp: bind_err_eq_Inl dest!: for_each_Inl dest: float_attr_error traslado_dr_entry_error
      split: option.splits if_splits)

lemma pago_data_error: "pago_data d = Inl x \<Longrightarrow> is_value_error x"
  unfolding pago_data_def Let_def
  by (auto simp: bind_err_eq_Inl dest!: for_each_Inl dest: float_attr_error doc_relacionado_error
      split: if_splits)

lemma complemento_pagos_error: "extraer_complemento_pagos d = Inl x \<Longrightarrow> is_value_error x"
  unfolding extraer_complemento_pagos_def Let_def
  by (auto simp: bind_err_eq_Inl dest!: for_each_Inl dest: pago_data_error split: if_splits)

lemma complementos_error: "extraer_complementos r = Inl x \<Longrightarrow> is_value_error x"
  unfolding extraer_complementos_def Let_def
  by (auto simp: bind_err_eq_Inl dest: complemento_pagos_error split: option.splits if_splits)


lemma stages_chain_error:
  assumes "bind_err (extraer_datos_generales r) (\<lambda>g.
         bind_err (extraer_conceptos r) (\<lambda>c.
         bind_err (extraer_complementos r) (\<lambda>k.
         bind_err (extraer_impuestos_concepto r) (\<lambda>i. Inr ())))) = Inl x"
  shows "is_value_error x"
  using assms
  by (auto simp: bind_err_eq_Inl
      dest: datos_generales_error conceptos_error complementos_error impuestos_concepto_error)

lemma procesar_error:
  assumes "snd (procesar_cfdi_completo w p) = Inl x"
  shows "is_value_error x"
proof (cases "path_exists w p \<and> (\<exists>r. et_parse w p = Tree r)")
  case False
  then have "\<not> path_exists w p \<or> (\<forall>r. et_parse w p \<noteq> Tree r)" by blast
  from procesar_not_loaded [OF this] assms show ?thesis by simp
next
  case True
  then obtain r where l: "path_exists w p" "et_parse w p = Tree r" by blast
  from stages_outcome [of r] show ?thesis
  proof (elim disjE exE conjE)
    fix e
    assume ch: "bind_err (extraer_datos_generales r) (\<lambda>g.
         bind_err (extraer_conceptos r) (\<lambda>c.
         bind_err (extraer_complementos r) (\<lambda>k.
         bind_err (extraer_impuestos_concepto r) (\<lambda>i. Inr ())))) = Inl e"
    from procesar_failure [OF l ch] assms have "x = e" by simp
    with ch show ?thesis by (simp add: stages_chain_error)
  next
    fix g c k i
    assume st: "extraer_datos_generales r = Inr g" "extraer_conceptos r = Inr c"
      "extraer_complementos r = Inr k" "extraer_impuestos_concepto r = Inr i"
    from procesar_success [OF l st] l have "\<exists>d. snd (procesar_cfdi_completo w p) = Inr d"
      by fastforce
    with assms show ?thesis by simp
  qed
qed

lemma datos_generales_subtotal_error:
  "get r ''SubTotal'' = Some s \<Longrightarrow> float_of_string s = None \<Longrightarrow>
   extraer_datos_generales r = Inl (ValueError s)"
  by (simp add: extraer_datos_generales_def get_default_def)

text \<open>
  C1, as stated, fails: a numeric attribute that is present with non-numeric text makes
  \<^verbatim>\<open>float\<close> raise ValueError, which no stage catches. With \<^verbatim>\<open>SubTotal="abc"\<close> the
  general-data extractor raises, and so does the whole pipeline.
\<close>

lemma float_of_string_abc: "float_of_string ''abc'' = None"
  by code_simp

theorem non_numeric_subtotal_raises:
  "get doc_subtotal_no_numerico ''SubTotal'' = Some ''abc''
   \<and> extraer_datos_generales doc_subtotal_no_numerico = Inl (ValueError ''abc'')
   \<and> procesar_cfdi_completo mundo_no_numerico ''factura.xml''
       = ([Procesando ''factura.xml'', Separador, Cargado ''4.0''], Inl (ValueError ''abc''))"
proof -
  have g: "get doc_subtotal_no_numerico ''SubTotal'' = Some ''abc''"
    by (simp add: doc_subtotal_no_numerico_def get_def)
  have e: "extraer_datos_generales doc_subtotal_no_numerico = Inl (ValueError ''abc'')"
    by (simp add: extraer_datos_generales_def get_default_def g float_of_string_abc)
  have l: "path_exists mundo_no_numerico ''factura.xml''"
    "et_parse mundo_no_numerico ''factura.xml'' = Tree doc_subtotal_no_numerico"
    by (simp_all add: mundo_no_numerico_def)
  have v: "detectar_version doc_subtotal_no_numerico = ''4.0''"
    by code_simp
  have "procesar_cfdi_completo mundo_no_numerico ''factura.xml''
       = ([Procesando ''factura.xml'', Separador, Cargado (detectar_version doc_subtotal_no_numerico)],
          Inl (ValueError ''abc''))"
    by (rule procesar_failure [OF l]) (simp add: e)
  with g e v show ?thesis by simp
qed

text \<open>
  C1, amended: the issuer, recipient and fiscal-stamp extractors return a dictionary for
  every tree; the general-data, line-item, tax and payment-complement extractors and the
  record assembly return their record for every tree in which each numeric attribute that
  is present holds text that \<^verbatim>\<open>float\<close> accepts. The only exception that the pipeline
  lets escape is the ValueError of \<^verbatim>\<open>float\<close>, which a non-numeric \<^verbatim>\<open>SubTotal\<close> raises in
  the general-data extractor.
\<close>

theorem stages_total_on_numeric_trees:
  "(\<exists>d. extraer_emisor r = PDict d) \<and> (\<exists>d. extraer_receptor r = PDict d)
   \<and> (\<exists>d. extraer_timbre r = PDict d)
   \<and> (numeric_ok r \<longrightarrow>
        (\<exists>d. extraer_datos_generales r = Inr (PDict d))
      \<and> (\<exists>ds. extraer_conceptos r = Inr (PList ds))
      \<and> (\<exists>d. extraer_impuestos_concepto r = Inr (PDict d))
      \<and> (\<exists>d. extraer_complementos r = Inr (PDict d))
      \<and> (path_exists w p \<and> et_parse w p = Tree r \<longrightarrow>
           (\<exists>d. snd (procesar_cfdi_completo w p) = Inr (PDict d))))
   \<and> (snd (procesar_cfdi_completo w p) = Inl x \<longrightarrow> is_value_error x)
   \<and> (get r ''SubTotal'' = Some s \<and> float_of_string s = None \<longrightarrow>
        extraer_datos_generales r = Inl (ValueError s))"
proof (intro conjI impI)
  show "\<exists>d. extraer_emisor r = PDict d"
    by (simp add: extraer_emisor_def Let_def split: option.splits)
  show "\<exists>d. extraer_receptor r = PDict d"
    by (rule receptor_shape)
  show "\<exists>d. extraer_timbre r = PDict d"
    by (rule timbre_shape)
next
  assume ok: "numeric_ok r"
  show "\<exists>d. extraer_datos_generales r = Inr (PDict d)"
    using ok by (simp add: numeric_ok_def datos_generales_ok)
  show "\<exists>ds. extraer_conceptos r = Inr (PList ds)"
    using ok by (rule conceptos_ok)
  show "\<exists>d. extraer_impuestos_concepto r = Inr (PDict d)"
    using ok by (rule impuestos_concepto_ok)
  show "\<exists>d. extraer_complementos r = Inr (PDict d)"
    using ok by (rule complementos_ok)
next
  assume ok: "numeric_ok r" and ld: "path_exists w p \<and> et_parse w p = Tree r"
  obtain g where g: "extraer_datos_generales r = Inr g"
    using ok by (auto simp: numeric_ok_def dest: datos_generales_ok)
  obtain c where c: "extraer_conceptos r = Inr c"
    using conceptos_ok [OF ok] by blast
  obtain k where k: "extraer_complementos r = Inr k"
    using complementos_ok [OF ok] by blast
  obtain i where i: "extraer_impuestos_concepto r = Inr i"
    using impuestos_concepto_ok [OF ok] by blast
  from ld have l: "path_exists w p" "et_parse w p = Tree r" by simp_all
  from procesar_success [OF l g c k i] obtain ls where
    "\<forall>w'. path_exists w' p \<and> et_parse w' p = Tree r \<longrightarrow>
           procesar_cfdi_completo w' p =
             ([Procesando p, Separador, Cargado (detectar_version r)] @ ls,
              Inr (PDict [
                (''archivo'', PStr p),
                (''fecha_procesamiento'', PStr (now_isoformat w')),
                (''datos_generales'', g),
                (''emisor'', extraer_emisor r),
                (''receptor'', extraer_receptor r),
                (''conceptos'', c),
                (''timbre'', extraer_timbre r),
                (''complementos'', k),
                (''impuestos'', i)]))"
    by blast
  with l have "snd (procesar_cfdi_completo w p) = Inr (PDict [
                (''archivo'', PStr p),
                (''fecha_procesamiento'', PStr (now_isoformat w)),
                (''datos_generales'', g),
                (''emisor'', extraer_emisor r),
                (''receptor'', extraer_receptor r),
                (''conceptos'', c),
                (''timbre'', extraer_timbre r),
                (''complementos'', k),
                (''impuestos'', i)])"
    by simp
  then show "\<exists>d. snd (procesar_cfdi_completo w p) = Inr (PDict d)"
    by blast
next
  assume "snd (procesar_cfdi_completo w p) = Inl x"
  then show "is_value_error x"
    by (rule procesar_error)
next
  assume "get r ''SubTotal'' = Some s \<and> float_of_string s = None"
  then show "extraer_datos_generales r = Inl (ValueError s)"
    by (simp add: datos_generales_subtotal_error)
qed

lemma doc_minimo_numeric_ok: "numeric_ok doc_minimo"
  by code_simp

theorem stages_total_on_numeric_trees_witness:
  "numeric_ok doc_minimo \<and> \<not> isl (extraer_datos_generales doc_minimo)
   \<and> \<not> isl (extraer_conceptos doc_minimo)
   \<and> \<not> isl (snd (procesar_cfdi_completo (mundo_minimo ''2026-01-01T00:00:00'') ''factura.xml''))"
proof -
  have l: "path_exists (mundo_minimo ''2026-01-01T00:00:00'') ''factura.xml''
     \<and> et_parse (mundo_minimo ''2026-01-01T00:00:00'') ''factura.xml'' = Tree doc_minimo"
    by (simp add: mundo_minimo_def)
  from stages_total_on_numeric_trees [of doc_minimo "mundo_minimo ''2026-01-01T00:00:00''" "''factura.xml''"]
    doc_minimo_numeric_ok l
  have "\<exists>d. extraer_datos_generales doc_minimo = Inr (PDict d)"
    and "\<exists>ds. extraer_conceptos doc_minimo = Inr (PList ds)"
    and "\<exists>d. snd (procesar_cfdi_completo (mundo_minimo ''2026-01-01T00:00:00'') ''factura.xml'') = Inr (PDict d)"
    by blast+
  with doc_minimo_numeric_ok show ?thesis by auto
qed

subsection \<open>Numeric attributes that are absent: the field is 0.0\<close>

text \<open>
  C5, as stated, fails: an element that lacks one numeric attribute need not give a
  record at all. A line item without \<^verbatim>\<open>Cantidad\<close> whose \<^verbatim>\<open>ValorUnitario\<close> is \<^verbatim>\<open>"abc"\<close>
  makes the line-item extractor raise ValueError, so there is no field \<^verbatim>\<open>cantidad\<close> equal
  to 0.0.
\<close>

theorem absent_cantidad_with_non_numeric_valor_raises:
  "get concepto_valor_no_numerico ''Cantidad'' = None
   \<and> concepto_data concepto_valor_no_numerico = Inl (ValueError ''abc'')
   \<and> extraer_conceptos doc_concepto_no_numerico = Inl (ValueError ''abc'')"
proof -
  have g: "get concepto_valor_no_numerico ''Cantidad'' = None"
    "get concepto_valor_no_numerico ''ValorUnitario'' = Some ''abc''"
    by (simp_all add: concepto_valor_no_numerico_def get_def)
  have c: "concepto_data concepto_valor_no_numerico = Inl (ValueError ''abc'')"
    by (simp add: concepto_data_def get_default_def g float_of_string_abc)
  have "findall_path doc_concepto_no_numerico (qname cfdi ''Conceptos'') (qname cfdi ''Concepto'')
          = [concepto_valor_no_numerico]"
    by (simp add: findall_path_def doc_concepto_no_numerico_def concepto_valor_no_numerico_def qname_def)
  then have "extraer_conceptos doc_concepto_no_numerico = Inl (ValueError ''abc'')"
    by (simp add: extraer_conceptos_def c)
  with g c show ?thesis by simp
qed

text \<open>In every dictionary built from an element, the numeric field of an attribute that
  the element does not have is the float 0.0; and the dictionary is built when the numeric
  attributes that are present are numeric.\<close>

lemma datos_generales_absent_on_return:
  "extraer_datos_generales e = Inr d \<Longrightarrow>
     (get e ''SubTotal'' = None \<longrightarrow> subscript d ''subtotal'' = Inr (PFloat (Finite False 0)))
   \<and> (get e ''Total'' = None \<longrightarrow> subscript d ''total'' = Inr (PFloat (Finite False 0)))"
  unfolding extraer_datos_generales_def Let_def
  by (auto simp: bind_err_eq_Inr float_default_zero)

lemma concepto_absent_on_return:
  "concepto_data e = Inr d \<Longrightarrow>
     (get e ''Cantidad'' = None \<longrightarrow> subscript d ''cantidad'' = Inr (PFloat (Finite False 0)))
   \<and> (get e ''ValorUnitario'' = None \<longrightarrow> subscript d ''valor_unitario'' = Inr (PFloat (Finite False 0)))
   \<and> (get e ''Importe'' = None \<longrightarrow> subscript d ''importe'' = Inr (PFloat (Finite False 0)))
   \<and> (get e ''Descuento'' = None \<longrightarrow> subscript d ''descuento'' = Inr (PFloat (Finite False 0)))"
  unfolding concepto_data_def Let_def
  by (auto simp: bind_err_eq_Inr float_default_zero)

lemma impuesto_absent_on_return:
  "impuesto_entry e = Inr d \<Longrightarrow>
     (get e ''Base'' = None \<longrightarrow> subscript d ''base'' = Inr (PFloat (Finite False 0)))
   \<and> (get e ''TasaOCuota'' = None \<longrightarrow> subscript d ''tasa_cuota'' = Inr (PFloat (Finite False 0)))
   \<and> (get e ''Importe'' = None \<longrightarrow> subscript d ''importe'' = Inr (PFloat (Finite False 0)))"
  unfolding impuesto_entry_def Let_def
  by (auto simp: bind_err_eq_Inr float_default_zero)

lemma pago_absent_on_return:
  "pago_data e = Inr d \<Longrightarrow>
     (get e ''Monto'' = None \<longrightarrow> subscript d ''monto'' = Inr (PFloat (Finite False 0)))"
  unfolding pago_data_def Let_def
  by (auto simp: bind_err_eq_Inr float_default_zero)

lemma doc_relacionado_absent_on_return:
  "doc_relacionado e = Inr d \<Longrightarrow>
     (get e ''ImpSaldoAnt'' = None \<longrightarrow> subscript d ''imp_saldo_ant'' = Inr (PFloat (Finite False 0)))
   \<and> (get e ''ImpPagado'' = None \<longrightarrow> subscript d ''imp_pagado'' = Inr (PFloat (Finite False 0)))
   \<and> (get e ''ImpSaldoInsoluto'' = None \<longrightarrow> subscript d ''imp_saldo_insoluto'' = Inr (PFloat (Finite False 0)))"
  unfolding doc_relacionado_def Let_def
  by (auto simp: bind_err_eq_Inr float_default_zero)

lemma traslado_dr_absent_on_return:
  "traslado_dr_entry e = Inr d \<Longrightarrow>
     (get e ''BaseDR'' = None \<longrightarrow> subscript d ''base'' = Inr (PFloat (Finite False 0)))
   \<and> (get e ''TasaOCuotaDR'' = None \<longrightarrow> subscript d ''tasa_cuota'' = Inr (PFloat (Finite False 0)))
   \<and> (get e ''ImporteDR'' = None \<longrightarrow> subscript d ''importe'' = Inr (PFloat (Finite False 0)))"
  unfolding traslado_dr_entry_def Let_def
  by (auto simp: bind_err_eq_Inr float_default_zero)

lemma datos_generales_absent_fields:
  "(attrs_numeric e \<longrightarrow>
      (\<exists>r. extraer_datos_generales e = Inr r
        \<and> (get e ''SubTotal'' = None \<longrightarrow> subscript r ''subtotal'' = Inr (PFloat (Finite False 0)))
        \<and> (get e ''Total'' = None \<longrightarrow> subscript r ''total'' = Inr (PFloat (Finite False 0)))))"
proof
  assume "attrs_numeric e"
  then obtain r where r: "extraer_datos_generales e = Inr r"
    using datos_generales_ok by blast
  from datos_generales_absent_on_return [OF r] r
  show "\<exists>r. extraer_datos_generales e = Inr r
        \<and> (get e ''SubTotal'' = None \<longrightarrow> subscript r ''subtotal'' = Inr (PFloat (Finite False 0)))
        \<and> (get e ''Total'' = None \<longrightarrow> subscript r ''total'' = Inr (PFloat (Finite False 0)))"
    by (intro exI [where x = r] conjI) simp_all
qed

lemma concepto_absent_fields:
  "(numeric_ok e \<longrightarrow>
      (\<exists>r. concepto_data e = Inr r
        \<and> (get e ''Cantidad'' = None \<longrightarrow> subscript r ''cantidad'' = Inr (PFloat (Finite False 0)))
        \<and> (get e ''ValorUnitario'' = None \<longrightarrow> subscript r ''valor_unitario'' = Inr (PFloat (Finite False 0)))
        \<and> (get e ''Importe'' = None \<longrightarrow> subscript r ''importe'' = Inr (PFloat (Finite False 0)))
        \<and> (get e ''Descuento'' = None \<longrightarrow> subscript r ''descuento'' = Inr (PFloat (Finite False 0)))))"
proof
  assume "numeric_ok e"
  then obtain r where r: "concepto_data e = Inr r"
    using concepto_data_ok by blast
  from concepto_absent_on_return [OF r] r
  show "\<exists>r. concepto_data e = Inr r
        \<and> (get e ''Cantidad'' = None \<longrightarrow> subscript r ''cantidad'' = Inr (PFloat (Finite False 0)))
        \<and> (get e ''ValorUnitario'' = None \<longrightarrow> subscript r ''valor_unitario'' = Inr (PFloat (Finite False 0)))
        \<and> (get e ''Importe'' = None \<longrightarrow> subscript r ''importe'' = Inr (PFloat (Finite False 0)))
        \<and> (get e ''Descuento'' = None \<longrightarrow> subscript r ''descuento'' = Inr (PFloat (Finite False 0)))"
    by (intro exI [where x = r] conjI) simp_all
qed

lemma impuesto_absent_fields:
  "(attrs_numeric e \<longrightarrow>
      (\<exists>r. impuesto_entry e = Inr r
        \<and> (get e ''Base'' = None \<longrightarrow> subscript r ''base'' = Inr (PFloat (Finite False 0)))
        \<and> (get e ''TasaOCuota'' = None \<longrightarrow> subscript r ''tasa_cuota'' = Inr (PFloat (Finite False 0)))
        \<and> (get e ''Importe'' = None \<longrightarrow> subscript r ''importe'' = Inr (PFloat (Finite False 0)))))"
proof
  assume "attrs_numeric e"
  then obtain r where r: "impuesto_entry e = Inr r"
    using impuesto_entry_ok by blast
  from impuesto_absent_on_return [OF r] r
  show "\<exists>r. impuesto_entry e = Inr r
        \<and> (get e ''Base'' = None \<longrightarrow> subscript r ''base'' = Inr (PFloat (Finite False 0)))
        \<and> (get e ''TasaOCuota'' = None \<longrightarrow> subscript r ''tasa_cuota'' = Inr (PFloat (Finite False 0)))
        \<and> (get e ''Importe'' = None \<longrightarrow> subscript r ''importe'' = Inr (PFloat (Finite False 0)))"
    by (intro exI [where x = r] conjI) simp_all
qed

lemma pago_absent_fields:
  "(numeric_ok e \<longrightarrow>
      (\<exists>r. pago_data e = Inr r
        \<and> (get e ''Monto'' = None \<longrightarrow> subscript r ''monto'' = Inr (PFloat (Finite False 0)))))"
proof
  assume "numeric_ok e"
  then obtain r where r: "pago_data e = Inr r"
    using pago_data_ok by blast
  from pago_absent_on_return [OF r] r
  show "\<exists>r. pago_data e = Inr r
        \<and> (get e ''Monto'' = None \<longrightarrow> subscript r ''monto'' = Inr (PFloat (Finite False 0)))"
    by (intro exI [where x = r] conjI) simp_all
qed

lemma doc_relacionado_absent_fields:
  "(numeric_ok e \<longrightarrow>
      (\<exists>r. doc_relacionado e = Inr r
        \<and> (get e ''ImpSaldoAnt'' = None \<longrightarrow> subscript r ''imp_saldo_ant'' = Inr (PFloat (Finite False 0)))
        \<and> (get e ''ImpPagado'' = None \<longrightarrow> subscript r ''imp_pagado'' = Inr (PFloat (Finite False 0)))
        \<and> (get e ''ImpSaldoInsoluto'' = None \<longrightarrow> subscript r ''imp_saldo_insoluto'' = Inr (PFloat (Finite False 0)))))"
proof
  assume "numeric_ok e"
  then obtain r where r: "doc_relacionado e = Inr r"
    using doc_relacionado_ok by blast
  from doc_relacionado_absent_on_return [OF r] r
  show "\<exists>r. doc_relacionado e = Inr r
        \<and> (get e ''ImpSaldoAnt'' = None \<longrightarrow> subscript r ''imp_saldo_ant'' = Inr (PFloat (Finite False 0)))
        \<and> (get e ''ImpPagado'' = None \<longrightarrow> subscript r ''imp_pagado'' = Inr (PFloat (Finite False 0)))
        \<and> (get e ''ImpSaldoInsoluto'' = None \<longrightarrow> subscript r ''imp_saldo_insoluto'' = Inr (PFloat (Finite False 0)))"
    by (intro exI [where x = r] conjI) simp_all
qed

lemma traslado_dr_absent_fields:
  "(attrs_numeric e \<longrightarrow>
      (\<exists>r. traslado_dr_entry e = Inr r
        \<and> (get e ''BaseDR'' = None \<longrightarrow> subscript r ''base'' = Inr (PFloat (Finite False 0)))
        \<and> (get e ''TasaOCuotaDR'' = None \<longrightarrow> subscript r ''tasa_cuota'' = Inr (PFloat (Finite False 0)))
        \<and> (get e ''ImporteDR'' = None \<longrightarrow> subscript r ''importe'' = Inr (PFloat (Finite False 0)))))"
proof
  assume "attrs_numeric e"
  then obtain r where r: "traslado_dr_entry e = Inr r"
    using traslado_dr_entry_ok by blast
  from traslado_dr_absent_on_return [OF r] r
  show "\<exists>r. traslado_dr_entry e = Inr r
        \<and> (get e ''BaseDR'' = None \<longrightarrow> subscript r ''base'' = Inr (PFloat (Finite False 0)))
        \<and> (get e ''TasaOCuotaDR'' = None \<longrightarrow> subscript r ''tasa_cuota'' = Inr (PFloat (Finite False 0)))
        \<and> (get e ''ImporteDR'' = None \<longrightarrow> subscript r ''importe'' = Inr (PFloat (Finite False 0)))"
    by (intro exI [where x = r] conjI) simp_all
qed

text \<open>
  C5, amended: reading a numeric attribute that the element does not have gives
  \<^verbatim>\<open>float(0)\<close>, that is 0.0, and never raises. For every element whose numeric attributes
  that are present hold text that \<^verbatim>\<open>float\<close> accepts (for a line item, a payment and a
  related document also those of the elements below it), the dictionary built from the
  element (general data, line item, tax entry, payment, related document, transferred tax
  of a related document) exists, and its numeric field for each absent attribute is the
  float 0.0. Whenever such a dictionary is returned at all, the field of an absent
  attribute is 0.0.
\<close>

theorem missing_numeric_attribute_is_zero:
  "(get e k = None \<longrightarrow> py_float (get_default e k (PInt 0)) = Inr (Finite False 0))
   \<and> (attrs_numeric e \<longrightarrow>
      (\<exists>r. extraer_datos_generales e = Inr r
        \<and> (get e ''SubTotal'' = None \<longrightarrow> subscript r ''subtotal'' = Inr (PFloat (Finite False 0)))
        \<and> (get e ''Total'' = None \<longrightarrow> subscript r ''total'' = Inr (PFloat (Finite False 0)))))
   \<and> (numeric_ok e \<longrightarrow>
      (\<exists>r. concepto_data e = Inr r
        \<and> (get e ''Cantidad'' = None \<longrightarrow> subscript r ''cantidad'' = Inr (PFloat (Finite False 0)))
        \<and> (get e ''ValorUnitario'' = None \<longrightarrow> subscript r ''valor_unitario'' = Inr (PFloat (Finite False 0)))
        \<and> (get e ''Importe'' = None \<longrightarrow> subscript r ''importe'' = Inr (PFloat (Finite False 0)))
        \<and> (get e ''Descuento'' = None \<longrightarrow> subscript r ''descuento'' = Inr (PFloat (Finite False 0)))))
   \<and> (attrs_numeric e \<longrightarrow>
      (\<exists>r. impuesto_entry e = Inr r
        \<and> (get e ''Base'' = None \<longrightarrow> subscript r ''base'' = Inr (PFloat (Finite False 0)))
        \<and> (get e ''TasaOCuota'' = None \<longrightarrow> subscript r ''tasa_cuota'' = Inr (PFloat (Finite False 0)))
        \<and> (get e ''Importe'' = None \<longrightarrow> subscript r ''importe'' = Inr (PFloat (Finite False 0)))))
   \<and> (numeric_ok e \<longrightarrow>
      (\<exists>r. pago_data e = Inr r
        \<and> (get e ''Monto'' = None \<longrightarrow> subscript r ''monto'' = Inr (PFloat (Finite False 0)))))
   \<and> (numeric_ok e \<longrightarrow>
      (\<exists>r. doc_relacionado e = Inr r
        \<and> (get e ''ImpSaldoAnt'' = None \<longrightarrow> subscript r ''imp_saldo_ant'' = Inr (PFloat (Finite False 0)))
        \<and> (get e ''ImpPagado'' = None \<longrightarrow> subscript r ''imp_pagado'' = Inr (PFloat (Finite False 0)))
        \<and> (get e ''ImpSaldoInsoluto'' = None \<longrightarrow> subscript r ''imp_saldo_insoluto'' = Inr (PFloat (Finite False 0)))))
   \<and> (attrs_numeric e \<longrightarrow>
      (\<exists>r. traslado_dr_entry e = Inr r
        \<and> (get e ''BaseDR'' = None \<longrightarrow> subscript r ''base'' = Inr (PFloat (Finite False 0)))
        \<and> (get e ''TasaOCuotaDR'' = None \<longrightarrow> subscript r ''tasa_cuota'' = Inr (PFloat (Finite False 0)))
        \<and> (get e ''ImporteDR'' = None \<longrightarrow> subscript r ''importe'' = Inr (PFloat (Finite False 0)))))
   \<and> (extraer_datos_generales e = Inr d \<longrightarrow>
        (get e ''SubTotal'' = None \<longrightarrow> subscript d ''subtotal'' = Inr (PFloat (Finite False 0)))
      \<and> (get e ''Total'' = None \<longrightarrow> subscript d ''total'' = Inr (PFloat (Finite False 0))))
   \<and> (concepto_data e = Inr d \<longrightarrow>
        (get e ''Cantidad'' = None \<longrightarrow> subscript d ''cantidad'' = Inr (PFloat (Finite False 0)))
      \<and> (get e ''ValorUnitario'' = None \<longrightarrow> subscript d ''valor_unitario'' = Inr (PFloat (Finite False 0)))
      \<and> (get e ''Importe'' = None \<longrightarrow> subscript d ''importe'' = Inr (PFloat (Finite False 0)))
      \<and> (get e ''Descuento'' = None \<longrightarrow> subscript d ''descuento'' = Inr (PFloat (Finite False 0))))
   \<and> (impuesto_entry e = Inr d \<longrightarrow>
        (get e ''Base'' = None \<longrightarrow> subscript d ''base'' = Inr (PFloat (Finite False 0)))
      \<and> (get e ''TasaOCuota'' = None \<longrightarrow> subscript d ''tasa_cuota'' = Inr (PFloat (Finite False 0)))
      \<and> (get e ''Importe'' = None \<longrightarrow> subscript d ''importe'' = Inr (PFloat (Finite False 0))))
   \<and> (pago_data e = Inr d \<longrightarrow>
        (get e ''Monto'' = None \<longrightarrow> subscript d ''monto'' = Inr (PFloat (Finite False 0))))
   \<and> (doc_relacionado e = Inr d \<longrightarrow>
        (get e ''ImpSaldoAnt'' = None \<longrightarrow> subscript d ''imp_saldo_ant'' = Inr (PFloat (Finite False 0)))
      \<and> (get e ''ImpPagado'' = None \<longrightarrow> subscript d ''imp_pagado'' = Inr (PFloat (Finite False 0)))
      \<and> (get e ''ImpSaldoInsoluto'' = None \<longrightarrow> subscript d ''imp_saldo_insoluto'' = Inr (PFloat (Finite False 0))))
   \<and> (traslado_dr_entry e = Inr d \<longrightarrow>
        (get e ''BaseDR'' = None \<longrightarrow> subscript d ''base'' = Inr (PFloat (Finite False 0)))
      \<and> (get e ''TasaOCuotaDR'' = None \<longrightarrow> subscript d ''tasa_cuota'' = Inr (PFloat (Finite False 0)))
      \<and> (get e ''ImporteDR'' = None \<longrightarrow> subscript d ''importe'' = Inr (PFloat (Finite False 0))))"
proof (intro conjI)
  show "get e k = None \<longrightarrow> py_float (get_default e k (PInt 0)) = Inr (Finite False 0)"
    by (simp add: float_default_zero)
  show "(attrs_numeric e \<longrightarrow>
      (\<exists>r. extraer_datos_generales e = Inr r
        \<and> (get e ''SubTotal'' = None \<longrightarrow> subscript r ''subtotal'' = Inr (PFloat (Finite False 0)))
        \<and> (get e ''Total'' = None \<longrightarrow> subscript r ''total'' = Inr (PFloat (Finite False 0)))))"
    by (rule datos_generales_absent_fields)
  show "(numeric_ok e \<longrightarrow>
      (\<exists>r. concepto_data e = Inr r
        \<and> (get e ''Cantidad'' = None \<longrightarrow> subscript r ''cantidad'' = Inr (PFloat (Finite False 0)))
        \<and> (get e ''ValorUnitario'' = None \<longrightarrow> subscript r ''valor_unitario'' = Inr (PFloat (Finite False 0)))
        \<and> (get e ''Importe'' = None \<longrightarrow> subscript r ''importe'' = Inr (PFloat (Finite False 0)))
        \<and> (get e ''Descuento'' = None \<longrightarrow> subscript r ''descuento'' = Inr (PFloat (Finite False 0)))))"
    by (rule concepto_absent_fields)
  show "(attrs_numeric e \<longrightarrow>
      (\<exists>r. impuesto_entry e = Inr r
        \<and> (get e ''Base'' = None \<longrightarrow> subscript r ''base'' = Inr (PFloat (Finite False 0)))
        \<and> (get e ''TasaOCuota'' = None \<longrightarrow> subscript r ''tasa_cuota'' = Inr (PFloat (Finite False 0)))
        \<and> (get e ''Importe'' = None \<longrightarrow> subscript r ''importe'' = Inr (PFloat (Finite False 0)))))"
    by (rule impuesto_absent_fields)
  show "(numeric_ok e \<longrightarrow>
      (\<exists>r. pago_data e = Inr r
        \<and> (get e ''Monto'' = None \<longrightarrow> subscript r ''monto'' = Inr (PFloat (Finite False 0)))))"
    by (rule pago_absent_fields)
  show "(numeric_ok e \<longrightarrow>
      (\<exists>r. doc_relacionado e = Inr r
        \<and> (get e ''ImpSaldoAnt'' = None \<longrightarrow> subscript r ''imp_saldo_ant'' = Inr (PFloat (Finite False 0)))
        \<and> (get e ''ImpPagado'' = None \<longrightarrow> subscript r ''imp_pagado'' = Inr (PFloat (Finite False 0)))
        \<and> (get e ''ImpSaldoInsoluto'' = None \<longrightarrow> subscript r ''imp_saldo_insoluto'' = Inr (PFloat (Finite False 0)))))"
    by (rule doc_relacionado_absent_fields)
  show "(attrs_numeric e \<longrightarrow>
      (\<exists>r. traslado_dr_entry e = Inr r
        \<and> (get e ''BaseDR'' = None \<longrightarrow> subscript r ''base'' = Inr (PFloat (Finite False 0)))
        \<and> (get e ''TasaOCuotaDR'' = None \<longrightarrow> subscript r ''tasa_cuota'' = Inr (PFloat (Finite False 0)))
        \<and> (get e ''ImporteDR'' = None \<longrightarrow> subscript r ''importe'' = Inr (PFloat (Finite False 0)))))"
    by (rule traslado_dr_absent_fields)
  show "(extraer_datos_generales e = Inr d \<longrightarrow>
        (get e ''SubTotal'' = None \<longrightarrow> subscript d ''subtotal'' = Inr (PFloat (Finite False 0)))
      \<and> (get e ''Total'' = None \<longrightarrow> subscript d ''total'' = Inr (PFloat (Finite False 0))))"
    by (rule impI) (rule datos_generales_absent_on_return)
  show "(concepto_data e = Inr d \<longrightarrow>
        (get e ''Cantidad'' = None \<longrightarrow> subscript d ''cantidad'' = Inr (PFloat (Finite False 0)))
      \<and> (get e ''ValorUnitario'' = None \<longrightarrow> subscript d ''valor_unitario'' = Inr (PFloat (Finite False 0)))
      \<and> (get e ''Importe'' = None \<longrightarrow> subscript d ''importe'' = Inr (PFloat (Finite False 0)))
      \<and> (get e ''Descuento'' = None \<longrightarrow> subscript d ''descuento'' = Inr (PFloat (Finite False 0))))"
    by (rule impI) (rule concepto_absent_on_return)
  show "(impuesto_entry e = Inr d \<longrightarrow>
        (get e ''Base'' = None \<longrightarrow> subscript d ''base'' = Inr (PFloat (Finite False 0)))
      \<and> (get e ''TasaOCuota'' = None \<longrightarrow> subscript d ''tasa_cuota'' = Inr (PFloat (Finite False 0)))
      \<and> (get e ''Importe'' = None \<longrightarrow> subscript d ''importe'' = Inr (PFloat (Finite False 0))))"
    by (rule impI) (rule impuesto_absent_on_return)
  show "(pago_data e = Inr d \<longrightarrow>
        (get e ''Monto'' = None \<longrightarrow> subscript d ''monto'' = Inr (PFloat (Finite False 0))))"
    by (rule impI) (rule pago_absent_on_return)
  show "(doc_relacionado e = Inr d \<longrightarrow>
        (get e ''ImpSaldoAnt'' = None \<longrightarrow> subscript d ''imp_saldo_ant'' = Inr (PFloat (Finite False 0)))
      \<and> (get e ''ImpPagado'' = None \<longrightarrow> subscript d ''imp_pagado'' = Inr (PFloat (Finite False 0)))
      \<and> (get e ''ImpSaldoInsoluto'' = None \<longrightarrow> subscript d ''imp_saldo_insoluto'' = Inr (PFloat (Finite False 0))))"
    by (rule impI) (rule doc_relacionado_absent_on_return)
  show "(traslado_dr_entry e = Inr d \<longrightarrow>
        (get e ''BaseDR'' = None \<longrightarrow> subscript d ''base'' = Inr (PFloat (Finite False 0)))
      \<and> (get e ''TasaOCuotaDR'' = None \<longrightarrow> subscript d ''tasa_cuota'' = Inr (PFloat (Finite False 0)))
      \<and> (get e ''ImporteDR'' = None \<longrightarrow> subscript d ''importe'' = Inr (PFloat (Finite False 0))))"
    by (rule impI) (rule traslado_dr_absent_on_return)
qed


theorem missing_numeric_attribute_is_zero_witness:
  "get doc_sin_atributos ''SubTotal'' = None
   \<and> field ''subtotal'' (extraer_datos_generales doc_sin_atributos) = Inr (PFloat (Finite False 0))
   \<and> get concepto_minimo ''Descuento'' = None
   \<and> field ''descuento'' (concepto_data concepto_minimo) = Inr (PFloat (Finite False 0))
   \<and> get traslado_sin_importes ''Base'' = None
   \<and> field ''base'' (impuesto_entry traslado_sin_importes) = Inr (PFloat (Finite False 0))
   \<and> get pago_sin_importes ''Monto'' = None
   \<and> field ''monto'' (pago_data pago_sin_importes) = Inr (PFloat (Finite False 0))
   \<and> get docto_sin_importes ''ImpPagado'' = None
   \<and> field ''imp_pagado'' (doc_relacionado docto_sin_importes) = Inr (PFloat (Finite False 0))
   \<and> get traslado_dr_sin_importes ''BaseDR'' = None
   \<and> field ''base'' (traslado_dr_entry traslado_dr_sin_importes) = Inr (PFloat (Finite False 0))"
proof -
  have h1: "attrs_numeric doc_sin_atributos"
    by code_simp
  have g1: "get doc_sin_atributos ''SubTotal'' = None"
    by (simp add: doc_sin_atributos_def get_def)
  from missing_numeric_attribute_is_zero [of doc_sin_atributos, THEN conjunct2, THEN conjunct1, THEN mp, OF h1] g1
  obtain r1 where "extraer_datos_generales doc_sin_atributos = Inr r1" "subscript r1 ''subtotal'' = Inr (PFloat (Finite False 0))"
    by blast
  then have f1: "field ''subtotal'' (extraer_datos_generales doc_sin_atributos) = Inr (PFloat (Finite False 0))"
    by (simp add: field_def)
  have h2: "numeric_ok concepto_minimo"
    by code_simp
  have g2: "get concepto_minimo ''Descuento'' = None"
    by (simp add: concepto_minimo_def get_def)
  from missing_numeric_attribute_is_zero [of concepto_minimo, THEN conjunct2, THEN conjunct2, THEN conjunct1, THEN mp, OF h2] g2
  obtain r2 where "concepto_data concepto_minimo = Inr r2" "subscript r2 ''descuento'' = Inr (PFloat (Finite False 0))"
    by blast
  then have f2: "field ''descuento'' (concepto_data concepto_minimo) = Inr (PFloat (Finite False 0))"
    by (simp add: field_def)
  have h3: "attrs_numeric traslado_sin_importes"
    by code_simp
  have g3: "get traslado_sin_importes ''Base'' = None"
    by (simp add: traslado_sin_importes_def get_def)
  from missing_numeric_attribute_is_zero [of traslado_sin_importes, THEN conjunct2, THEN conjunct2, THEN conjunct2, THEN conjunct1, THEN mp, OF h3] g3
  obtain r3 where "impuesto_entry traslado_sin_importes = Inr r3" "subscript r3 ''base'' = Inr (PFloat (Finite False 0))"
    by blast
  then have f3: "field ''base'' (impuesto_entry traslado_sin_importes) = Inr (PFloat (Finite False 0))"
    by (simp add: field_def)
  have h4: "numeric_ok pago_sin_importes"
    by code_simp
  have g4: "get pago_sin_importes ''Monto'' = None"
    by (simp add: pago_sin_importes_def get_def)
  from missing_numeric_attribute_is_zero [of pago_sin_importes, THEN conjunct2, THEN conjunct2, THEN conjunct2, THEN conjunct2, THEN conjunct1, THEN mp, OF h4] g4
  obtain r4 where "pago_data pago_sin_importes = Inr r4" "subscript r4 ''monto'' = Inr (PFloat (Finite False 0))"
    by blast
  then have f4: "field ''monto'' (pago_data pago_sin_importes) = Inr (PFloat (Finite False 0))"
    by (simp add: field_def)
  have h5: "numeric_ok docto_sin_importes"
    by code_simp
  have g5: "get docto_sin_importes ''ImpPagado'' = None"
    by (simp add: docto_sin_importes_def get_def)
  from missing_numeric_attribute_is_zero [of docto_sin_importes, THEN conjunct2, THEN conjunct2, THEN conjunct2, THEN conjunct2, THEN conjunct2, THEN conjunct1, THEN mp, OF h5] g5
  obtain r5 where "doc_relacionado docto_sin_importes = Inr r5" "subscript r5 ''imp_pagado'' = Inr (PFloat (Finite False 0))"
    by blast
  then have f5: "field ''imp_pagado'' (doc_relacionado docto_sin_importes) = Inr (PFloat (Finite False 0))"
    by (simp add: field_def)
  have h6: "attrs_numeric traslado_dr_sin_importes"
    by code_simp
  have g6: "get traslado_dr_sin_importes ''BaseDR'' = None"
    by (simp add: traslado_dr_sin_importes_def get_def)
  from missing_numeric_attribute_is_zero [of traslado_dr_sin_importes, THEN conjunct2, THEN conjunct2, THEN conjunct2, THEN conjunct2, THEN conjunct2, THEN conjunct2, THEN conjunct1, THEN mp, OF h6] g6
  obtain r6 where "traslado_dr_entry traslado_dr_sin_importes = Inr r6" "subscript r6 ''base'' = Inr (PFloat (Finite False 0))"
    by blast
  then have f6: "field ''base'' (traslado_dr_entry traslado_dr_sin_importes) = Inr (PFloat (Finite False 0))"
    by (simp add: field_def)
  from g1 f1 g2 f2 g3 f3 g4 f4 g5 f5 g6 f6 show ?thesis
    by simp
qed

end
